theory Spec2Isabelle
  imports Complex_Main "HOL-Library.Multiset"
begin

section \<open>Raw records\<close>

text \<open>
  The analyzer reads its records with \<^verbatim>\<open>json.load\<close>: every field value is a JSON value.
  A float is represented by the rational it denotes. A record is a JSON object, kept as
  the list of its members in file order.
\<close>

datatype json =
    JNull
  | JBool bool
  | JInt int
  | JFloat rat
  | JStr string
  | JArr "json list"
  | JObj "(string \<times> json) list"

type_synonym alert = "(string \<times> json) list"

text \<open>Python's truth value of a loaded JSON value, as tested by \<^verbatim>\<open>if v\<close> and \<^verbatim>\<open>v or w\<close>.\<close>

fun truthy :: "json \<Rightarrow> bool" where
  "truthy JNull = False"
| "truthy (JBool b) = b"
| "truthy (JInt n) = (n \<noteq> 0)"
| "truthy (JFloat r) = (r \<noteq> 0)"
| "truthy (JStr s) = (s \<noteq> [])"
| "truthy (JArr xs) = (xs \<noteq> [])"
| "truthy (JObj kvs) = (kvs \<noteq> [])"

text \<open>\<^verbatim>\<open>d.get(k)\<close> gives \<^verbatim>\<open>None\<close> for a missing key, \<^verbatim>\<open>d.get(k, dflt)\<close> gives \<^verbatim>\<open>dflt\<close>.\<close>

definition dict_get :: "alert \<Rightarrow> string \<Rightarrow> json" where
  "dict_get d k = (case map_of d k of None \<Rightarrow> JNull | Some v \<Rightarrow> v)"

definition dict_get_default :: "alert \<Rightarrow> string \<Rightarrow> json \<Rightarrow> json" where
  "dict_get_default d k dflt = (case map_of d k of None \<Rightarrow> dflt | Some v \<Rightarrow> v)"

text \<open>
  The guard \<^verbatim>\<open>v and isinstance(v, str)\<close> used on every string field: it passes exactly
  the non-empty strings.
\<close>

fun str_field :: "json \<Rightarrow> string option" where
  "str_field (JStr s) = (if s = [] then None else Some s)"
| "str_field _ = None"

text \<open>The exceptions the analyzer can raise on a record or an argument.\<close>

datatype py_error = KeyError | TypeError | AttributeError | ValueError | ZeroDivisionError

text \<open>
  A value used as a dictionary key. Strings compare by content; \<^verbatim>\<open>True\<close>, \<^verbatim>\<open>1\<close> and
  \<^verbatim>\<open>1.0\<close> are one key in Python, so every number and boolean is kept as its value.
  Lists and objects are unhashable: using one as a key raises \<^verbatim>\<open>TypeError\<close>.
\<close>

datatype pykey = KNone | KNum rat | KStr string

fun hash_key :: "json \<Rightarrow> pykey option" where
  "hash_key JNull = Some KNone"
| "hash_key (JBool b) = Some (KNum (if b then 1 else 0))"
| "hash_key (JInt n) = Some (KNum (of_int n))"
| "hash_key (JFloat r) = Some (KNum r)"
| "hash_key (JStr s) = Some (KStr s)"
| "hash_key (JArr xs) = None"
| "hash_key (JObj kvs) = None"

section \<open>Library functions\<close>

text \<open>
  A \<^verbatim>\<open>datetime\<close> object: its calendar fields and, for an aware value, the offset from
  UTC in microseconds (\<open>None\<close> for a naive value).
\<close>

record datetime =
  dt_year :: nat
  dt_month :: nat
  dt_day :: nat
  dt_hour :: nat
  dt_minute :: nat
  dt_second :: nat
  dt_microsecond :: nat
  dt_utcoffset :: "int option"

text \<open>
  The functions of the Python library that the analyzer calls are parameters of the
  model: \<^verbatim>\<open>datetime.fromisoformat\<close> (\<open>None\<close> when it raises \<^verbatim>\<open>ValueError\<close>),
  \<^verbatim>\<open>strftime('%Y-%m-%d')\<close>, \<^verbatim>\<open>isoformat()\<close> and \<^verbatim>\<open>str\<close> of a loaded value.
\<close>

record pylib =
  fromisoformat :: "string \<Rightarrow> datetime option"
  strftime_ymd :: "datetime \<Rightarrow> string"
  isoformat :: "datetime \<Rightarrow> string"
  py_str :: "json \<Rightarrow> string"

text \<open>\<^verbatim>\<open>s.replace('Z', '+00:00')\<close>\<close>

fun replace_Z :: "string \<Rightarrow> string" where
  "replace_Z [] = []"
| "replace_Z (c # cs) = (if c = CHR ''Z'' then ''+00:00'' @ replace_Z cs else c # replace_Z cs)"

text \<open>
  The timestamp block shared by every pass: the field must be a non-empty string, and
  a string that does not parse is skipped by the bare \<^verbatim>\<open>except\<close>.
\<close>

definition parse_timestamp :: "pylib \<Rightarrow> json \<Rightarrow> datetime option" where
  "parse_timestamp L v =
     (case str_field v of None \<Rightarrow> None | Some s \<Rightarrow> fromisoformat L (replace_Z s))"

text \<open>
  Equality of two \<^verbatim>\<open>datetime\<close> keys. Two naive values are equal when their fields are;
  two aware values are equal when they denote the same instant, which is computed from
  the proleptic Gregorian day number as \<^verbatim>\<open>toordinal\<close> does; a naive and an aware value
  are never equal.
\<close>

definition is_leap :: "nat \<Rightarrow> bool" where
  "is_leap y = (y mod 4 = 0 \<and> (y mod 100 \<noteq> 0 \<or> y mod 400 = 0))"

definition days_before_year :: "nat \<Rightarrow> int" where
  "days_before_year y =
     (let p = int y - 1 in p * 365 + p div 4 - p div 100 + p div 400)"

definition days_before_month :: "nat \<Rightarrow> nat \<Rightarrow> int" where
  "days_before_month y m =
     int ([0, 0, 31, 59, 90, 120, 151, 181, 212, 243, 273, 304, 334] ! (min m 12))
     + (if m > 2 \<and> is_leap y then 1 else 0)"

definition toordinal :: "datetime \<Rightarrow> int" where
  "toordinal d = days_before_year (dt_year d) + days_before_month (dt_year d) (dt_month d) + int (dt_day d)"

definition local_microseconds :: "datetime \<Rightarrow> int" where
  "local_microseconds d =
     (((toordinal d * 24 + int (dt_hour d)) * 60 + int (dt_minute d)) * 60 + int (dt_second d)) * 1000000
     + int (dt_microsecond d)"

definition dt_eq :: "datetime \<Rightarrow> datetime \<Rightarrow> bool" where
  "dt_eq a b =
     (case (dt_utcoffset a, dt_utcoffset b) of
        (None, None) \<Rightarrow> a = b
      | (Some x, Some y) \<Rightarrow> local_microseconds a - x = local_microseconds b - y
      | _ \<Rightarrow> False)"

section \<open>Counters and grouping dictionaries\<close>

text \<open>
  A \<^verbatim>\<open>Counter\<close> (or a \<^verbatim>\<open>defaultdict(int)\<close>) is kept as the list of its items in insertion
  order, which \<^verbatim>\<open>most_common\<close> depends on. \<open>counter_add k v c\<close> is \<^verbatim>\<open>c[k] += v\<close>.
\<close>

type_synonym 'k counter = "('k \<times> int) list"

fun counter_add :: "'k \<Rightarrow> int \<Rightarrow> 'k counter \<Rightarrow> 'k counter" where
  "counter_add k v [] = [(k, v)]"
| "counter_add k v ((k', n) # c) =
     (if k' = k then (k', n + v) # c else (k', n) # counter_add k v c)"

definition counter_get :: "'k counter \<Rightarrow> 'k \<Rightarrow> int" where
  "counter_get c k = (case map_of c k of None \<Rightarrow> 0 | Some n \<Rightarrow> n)"

text \<open>
  \<open>group_append same k v g\<close> is \<^verbatim>\<open>g[k].append(v)\<close> on a \<^verbatim>\<open>defaultdict(list)\<close>, where
  \<open>same\<close> is the equality of the key type as the dictionary sees it.
\<close>

fun group_append :: "('k \<Rightarrow> 'k \<Rightarrow> bool) \<Rightarrow> 'k \<Rightarrow> 'v \<Rightarrow> ('k \<times> 'v list) list \<Rightarrow> ('k \<times> 'v list) list" where
  "group_append same k v [] = [(k, [v])]"
| "group_append same k v ((k', vs) # g) =
     (if same k' k then (k', vs @ [v]) # g else (k', vs) # group_append same k v g)"

text \<open>
  The sample of a group: \<^verbatim>\<open>list(set(resources))[:5]\<close> over the string \<^verbatim>\<open>resourceId\<close>s of its
  records. The iteration order of a Python set is not specified; the model takes the
  duplicate-free list that \<open>remdups\<close> gives.
\<close>

definition group_resources :: "alert list \<Rightarrow> string list" where
  "group_resources alerts =
     take 5 (remdups (List.map_filter (\<lambda>a. str_field (dict_get a ''resourceId'')) alerts))"

section \<open>Correlation patterns\<close>

record correlation_pattern =
  correlation_id :: string
  pattern_alert_count :: nat
  pattern_resources :: "string list"
  time_span :: string

definition correlation_step :: "alert \<Rightarrow> (string \<times> alert list) list \<Rightarrow> (string \<times> alert list) list" where
  "correlation_step a g =
     (case str_field (dict_get a ''correlationId'') of
        None \<Rightarrow> g
      | Some cid \<Rightarrow> group_append (=) cid a g)"

definition correlation_groups :: "alert list \<Rightarrow> (string \<times> alert list) list" where
  "correlation_groups activity_alerts = fold correlation_step activity_alerts []"

fun correlation_patterns_of :: "(string \<times> alert list) list \<Rightarrow> correlation_pattern list" where
  "correlation_patterns_of [] = []"
| "correlation_patterns_of ((corr_id, alerts) # g) =
     (if length alerts > 2
      then \<lparr>correlation_id = corr_id, pattern_alert_count = length alerts,
            pattern_resources = group_resources alerts,
            time_span = ''Multiple related alerts''\<rparr> # correlation_patterns_of g
      else correlation_patterns_of g)"

definition detect_correlation_patterns :: "alert list \<Rightarrow> correlation_pattern list" where
  "detect_correlation_patterns activity_alerts =
     correlation_patterns_of (correlation_groups activity_alerts)"

section \<open>Alert storms\<close>

record alert_storm =
  storm_time :: string
  storm_count :: nat
  storm_resources :: "string list"

text \<open>\<^verbatim>\<open>dt.replace(minute=(dt.minute // 5) * 5, second=0, microsecond=0)\<close>\<close>

definition window_of :: "datetime \<Rightarrow> datetime" where
  "window_of dt = dt\<lparr>dt_minute := (dt_minute dt div 5) * 5, dt_second := 0, dt_microsecond := 0\<rparr>"

definition alert_window :: "pylib \<Rightarrow> alert \<Rightarrow> datetime option" where
  "alert_window L a = map_option window_of (parse_timestamp L (dict_get a ''timestamp''))"

definition storm_step :: "pylib \<Rightarrow> alert \<Rightarrow> (datetime \<times> alert list) list \<Rightarrow> (datetime \<times> alert list) list" where
  "storm_step L a g =
     (case alert_window L a of
        None \<Rightarrow> g
      | Some window \<Rightarrow> group_append dt_eq window a g)"

definition time_windows :: "pylib \<Rightarrow> alert list \<Rightarrow> (datetime \<times> alert list) list" where
  "time_windows L activity_alerts = fold (storm_step L) activity_alerts []"

text \<open>
  The loop over \<^verbatim>\<open>time_windows.items()\<close>. Each storm is returned next to the window key
  it was built from; the analyzer keeps the storms (\<open>detect_alert_storms\<close>).
\<close>

fun storms_by_window :: "pylib \<Rightarrow> (datetime \<times> alert list) list \<Rightarrow> (datetime \<times> alert_storm) list" where
  "storms_by_window L [] = []"
| "storms_by_window L ((window, alerts) # g) =
     (if length alerts > 10
      then (window, \<lparr>storm_time = isoformat L window, storm_count = length alerts,
                     storm_resources = group_resources alerts\<rparr>) # storms_by_window L g
      else storms_by_window L g)"

definition detect_alert_storms :: "pylib \<Rightarrow> alert list \<Rightarrow> alert_storm list" where
  "detect_alert_storms L activity_alerts =
     map snd (storms_by_window L (time_windows L activity_alerts))"

section \<open>Tuning recommendations\<close>

text \<open>
  \<^verbatim>\<open>low_sev_count > count * 0.7\<close> multiplies an \<^verbatim>\<open>int\<close> by a \<^verbatim>\<open>float\<close>. The literal
  \<^verbatim>\<open>0.7\<close> is the double \<open>6305039478318694 / 2 ^ 53\<close>. \<open>round_to_53\<close> rounds a natural
  number to 53 significant bits, ties to even, which is both the conversion of
  \<^verbatim>\<open>count\<close> to a double and the rounding of the exact product. Python compares the
  \<^verbatim>\<open>int\<close> on the left with the double exactly. (Counts of \<open>2 ^ 1024\<close> and more, whose
  conversion overflows, are beyond any list of records; a count of a counter is positive,
  and \<open>low_severity_frequent\<close> passes it on as a natural number.)
\<close>

fun bit_length :: "nat \<Rightarrow> nat" where
  "bit_length n = (if n = 0 then 0 else Suc (bit_length (n div 2)))"

declare bit_length.simps [simp del]

definition round_to_53 :: "nat \<Rightarrow> nat" where
  "round_to_53 n =
     (let s = bit_length n - 53;
          q = n div 2 ^ s;
          r = n mod 2 ^ s
      in (if 2 * r > 2 ^ s \<or> (2 * r = 2 ^ s \<and> odd q) then q + 1 else q) * 2 ^ s)"

definition exceeds_0_7 :: "nat \<Rightarrow> nat \<Rightarrow> bool" where
  "exceeds_0_7 low cnt =
     (round_to_53 (round_to_53 cnt * 6305039478318694) < low * 2 ^ 53)"

text \<open>
  \<^verbatim>\<open>Counter.most_common(n)\<close>: the items by decreasing count, items of equal count in
  insertion order, cut to the first \<open>n\<close>.
\<close>

definition most_common :: "nat \<Rightarrow> 'k counter \<Rightarrow> ('k \<times> int) list" where
  "most_common n c = take n (sort_key (\<lambda>(k, v). - v) c)"

record tuning_recommendation =
  rec_resource :: string
  rec_alert_count :: int
  recommendation :: string

definition low_sev_count :: "alert list \<Rightarrow> string \<Rightarrow> nat" where
  "low_sev_count activity_alerts resource =
     length (filter (\<lambda>a. dict_get a ''resourceId'' = JStr resource \<and>
                         dict_get a ''level'' \<in> set [JStr ''Warning'', JStr ''Informational''])
               activity_alerts)"

fun low_severity_frequent :: "alert list \<Rightarrow> (string \<times> int) list \<Rightarrow> tuning_recommendation list" where
  "low_severity_frequent activity_alerts [] = []"
| "low_severity_frequent activity_alerts ((resource, cnt) # rest) =
     (if exceeds_0_7 (low_sev_count activity_alerts resource) (nat cnt) \<and> cnt > 5
      then \<lparr>rec_resource = resource, rec_alert_count = cnt,
            recommendation = ''Consider adjusting thresholds or reducing alert sensitivity''\<rparr>
           # low_severity_frequent activity_alerts rest
      else low_severity_frequent activity_alerts rest)"

definition tuning_recommendations_of :: "alert list \<Rightarrow> string counter \<Rightarrow> tuning_recommendation list" where
  "tuning_recommendations_of activity_alerts top_resources =
     low_severity_frequent activity_alerts (most_common 20 top_resources)"

section \<open>The analysis document\<close>

text \<open>
  The dictionary \<^verbatim>\<open>analysis\<close> of \<^verbatim>\<open>analyze_alerts\<close> (run of 17:19:57). The three
  counters of \<^verbatim>\<open>alert_lifecycle_metrics\<close> are fields of their own; its two averages stay
  \<open>0\<close>, \<^verbatim>\<open>maintenance_windows\<close> stays empty, and \<^verbatim>\<open>resource_health_alerts\<close> is a list of
  copies of records that no other part reads: they are left out.
\<close>

record analysis =
  total_alerts :: nat
  severity_breakdown :: "string counter"
  alert_state_breakdown :: "string counter"
  alert_state_by_severity :: "(string \<times> string counter) list"
  resource_type_breakdown :: "pykey counter"
  resource_group_breakdown :: "string counter"
  hourly_distribution :: "nat counter"
  daily_distribution :: "string counter"
  top_alerting_resources :: "string counter"
  top_alerts_by_severity :: "(string \<times> string counter) list"
  new_alerts :: nat
  acknowledged_alerts :: nat
  closed_alerts :: nat
  correlation_patterns :: "correlation_pattern list"
  tuning_recommendations :: "tuning_recommendation list"
  alert_storms :: "alert_storm list"

definition initial_analysis :: "alert list \<Rightarrow> alert list \<Rightarrow> analysis" where
  "initial_analysis activity_alerts alert_history =
     \<lparr>total_alerts = length activity_alerts + length alert_history,
      severity_breakdown = [],
      alert_state_breakdown = [],
      alert_state_by_severity = [],
      resource_type_breakdown = [],
      resource_group_breakdown = [],
      hourly_distribution = [],
      daily_distribution = [],
      top_alerting_resources = [],
      top_alerts_by_severity =
        [(''Sev0'', []), (''Sev1'', []), (''Sev2'', []), (''Sev3'', []), (''Sev4'', [])],
      new_alerts = 0,
      acknowledged_alerts = 0,
      closed_alerts = 0,
      correlation_patterns = [],
      tuning_recommendations = [],
      alert_storms = []\<rparr>"

text \<open>\<open>nested_add s k v n\<close> is \<^verbatim>\<open>n[s][k] += v\<close> on a dictionary of counters.\<close>

fun nested_add :: "string \<Rightarrow> 'k \<Rightarrow> int \<Rightarrow> (string \<times> 'k counter) list \<Rightarrow> (string \<times> 'k counter) list" where
  "nested_add s k v [] = [(s, [(k, v)])]"
| "nested_add s k v ((s', c) # n) =
     (if s' = s then (s', counter_add k v c) # n else (s', c) # nested_add s k v n)"

definition nested_get :: "(string \<times> 'k counter) list \<Rightarrow> string \<Rightarrow> 'k \<Rightarrow> int" where
  "nested_get n s k = (case map_of n s of None \<Rightarrow> 0 | Some c \<Rightarrow> counter_get c k)"

text \<open>\<^verbatim>\<open>str(v)\<close>: a string is its own \<^verbatim>\<open>str\<close>; any other value is rendered by the library.\<close>

definition str_of :: "pylib \<Rightarrow> json \<Rightarrow> string" where
  "str_of L v = (case v of JStr s \<Rightarrow> s | _ \<Rightarrow> py_str L v)"

text \<open>
  The value counted for a resource type: a string or any other plain value by its
  \<^verbatim>\<open>str\<close>, an object by \<^verbatim>\<open>value\<close>, else \<^verbatim>\<open>localizedValue\<close>, else its \<^verbatim>\<open>str\<close>.
\<close>

definition resource_type_str :: "pylib \<Rightarrow> json \<Rightarrow> json" where
  "resource_type_str L resource_type =
     (case resource_type of
        JObj d \<Rightarrow>
          (if truthy (dict_get d ''value'') then dict_get d ''value''
           else if truthy (dict_get d ''localizedValue'') then dict_get d ''localizedValue''
           else JStr (str_of L resource_type))
      | _ \<Rightarrow> JStr (str_of L resource_type))"

definition count_resource_type :: "pylib \<Rightarrow> json \<Rightarrow> pykey counter \<Rightarrow> py_error + pykey counter" where
  "count_resource_type L resource_type c =
     (if truthy resource_type
      then (case hash_key (resource_type_str L resource_type) of
              None \<Rightarrow> Inl TypeError
            | Some k \<Rightarrow> Inr (counter_add k 1 c))
      else Inr c)"

definition count_str :: "json \<Rightarrow> string counter \<Rightarrow> string counter" where
  "count_str v c = (case str_field v of None \<Rightarrow> c | Some s \<Rightarrow> counter_add s 1 c)"

definition count_time :: "pylib \<Rightarrow> json \<Rightarrow> analysis \<Rightarrow> analysis" where
  "count_time L v a =
     (case parse_timestamp L v of
        None \<Rightarrow> a
      | Some dt \<Rightarrow>
          a\<lparr>hourly_distribution := counter_add (dt_hour dt) 1 (hourly_distribution a),
            daily_distribution := counter_add (strftime_ymd L dt) 1 (daily_distribution a)\<rparr>)"

text \<open>The body of the loop over \<^verbatim>\<open>activity_alerts\<close>.\<close>

definition activity_step :: "pylib \<Rightarrow> alert \<Rightarrow> analysis \<Rightarrow> py_error + analysis" where
  "activity_step L alert a =
     (case count_resource_type L (dict_get alert ''resourceType'') (resource_type_breakdown a) of
        Inl e \<Rightarrow> Inl e
      | Inr rt \<Rightarrow>
          Inr (count_time L (dict_get alert ''timestamp'')
                (a\<lparr>severity_breakdown := count_str (dict_get alert ''level'') (severity_breakdown a),
                   resource_type_breakdown := rt,
                   resource_group_breakdown :=
                     count_str (dict_get alert ''resourceGroup'') (resource_group_breakdown a),
                   top_alerting_resources :=
                     count_str (dict_get alert ''resourceId'') (top_alerting_resources a)\<rparr>)))"

text \<open>The body of the loop over \<^verbatim>\<open>alert_history\<close>.\<close>

definition count_top_alert :: "alert \<Rightarrow> (string \<times> string counter) list \<Rightarrow> (string \<times> string counter) list" where
  "count_top_alert alert tops =
     (case str_field (dict_get alert ''severity'') of
        None \<Rightarrow> tops
      | Some severity \<Rightarrow>
          (case dict_get_default alert ''name'' (JStr ''Unknown Alert'') of
             JStr alert_name \<Rightarrow>
               (if severity \<in> set (map fst tops) then nested_add severity alert_name 1 tops
                else tops)
           | _ \<Rightarrow> tops))"

definition count_state_by_severity :: "alert \<Rightarrow> (string \<times> string counter) list \<Rightarrow> (string \<times> string counter) list" where
  "count_state_by_severity alert m =
     (case str_field (dict_get alert ''alertState'') of
        None \<Rightarrow> m
      | Some alert_state \<Rightarrow>
          (case str_field (dict_get alert ''severity'') of
             None \<Rightarrow> m
           | Some severity \<Rightarrow> nested_add severity alert_state 1 m))"

definition count_if :: "bool \<Rightarrow> nat \<Rightarrow> nat" where
  "count_if b n = (if b then n + 1 else n)"

definition history_step :: "pylib \<Rightarrow> alert \<Rightarrow> analysis \<Rightarrow> py_error + analysis" where
  "history_step L alert a =
     (case count_resource_type L (dict_get alert ''targetResourceType'') (resource_type_breakdown a) of
        Inl e \<Rightarrow> Inl e
      | Inr rt \<Rightarrow>
          Inr (count_time L (dict_get alert ''startDateTime'')
                (a\<lparr>severity_breakdown := count_str (dict_get alert ''severity'') (severity_breakdown a),
                   top_alerts_by_severity := count_top_alert alert (top_alerts_by_severity a),
                   alert_state_breakdown :=
                     count_str (dict_get alert ''alertState'') (alert_state_breakdown a),
                   alert_state_by_severity := count_state_by_severity alert (alert_state_by_severity a),
                   new_alerts := count_if (dict_get alert ''alertState'' = JStr ''New'') (new_alerts a),
                   acknowledged_alerts :=
                     count_if (dict_get alert ''alertState'' = JStr ''Acknowledged'') (acknowledged_alerts a),
                   closed_alerts :=
                     count_if (dict_get alert ''alertState'' = JStr ''Closed'') (closed_alerts a),
                   resource_type_breakdown := rt,
                   resource_group_breakdown :=
                     count_str (dict_get alert ''targetResourceGroup'') (resource_group_breakdown a),
                   top_alerting_resources :=
                     count_str (dict_get alert ''targetResource'') (top_alerting_resources a)\<rparr>)))"

text \<open>A loop whose body can raise: the first exception ends it.\<close>

fun for_each :: "('x \<Rightarrow> 's \<Rightarrow> py_error + 's) \<Rightarrow> 'x list \<Rightarrow> 's \<Rightarrow> py_error + 's" where
  "for_each body [] s = Inr s"
| "for_each body (x # xs) s =
     (case body x s of Inl e \<Rightarrow> Inl e | Inr s' \<Rightarrow> for_each body xs s')"

definition analyze_alerts :: "pylib \<Rightarrow> alert list \<Rightarrow> alert list \<Rightarrow> py_error + analysis" where
  "analyze_alerts L activity_alerts alert_history =
     (case for_each (activity_step L) activity_alerts
             (initial_analysis activity_alerts alert_history) of
        Inl e \<Rightarrow> Inl e
      | Inr a1 \<Rightarrow>
          (case for_each (history_step L) alert_history a1 of
             Inl e \<Rightarrow> Inl e
           | Inr a2 \<Rightarrow>
               Inr (a2\<lparr>alert_storms := detect_alert_storms L activity_alerts,
                        tuning_recommendations :=
                          tuning_recommendations_of activity_alerts (top_alerting_resources a2),
                        correlation_patterns := detect_correlation_patterns activity_alerts\<rparr>)))"

section \<open>The earlier analyzer (run of 13:29:21)\<close>

text \<open>
  The two counting loops of the earlier \<^verbatim>\<open>analyze_alerts\<close>. It subscripts the activity
  record (\<^verbatim>\<open>alert['level']\<close> raises \<^verbatim>\<open>KeyError\<close> on a missing field), counts any truthy
  value as it is, and does not catch what the timestamp block raises. The sections after
  the loops write only the storms, the recommendations and the correlation patterns.
\<close>

record breakdowns_132921 =
  severity_breakdown_132921 :: "pykey counter"
  resource_type_breakdown_132921 :: "pykey counter"
  resource_group_breakdown_132921 :: "pykey counter"
  hourly_distribution_132921 :: "nat counter"
  daily_distribution_132921 :: "string counter"
  top_alerting_resources_132921 :: "pykey counter"

definition bind_err :: "py_error + 'a \<Rightarrow> ('a \<Rightarrow> py_error + 'b) \<Rightarrow> py_error + 'b" where
  "bind_err m f = (case m of Inl e \<Rightarrow> Inl e | Inr x \<Rightarrow> f x)"

definition subscript :: "alert \<Rightarrow> string \<Rightarrow> py_error + json" where
  "subscript d k = (case map_of d k of None \<Rightarrow> Inl KeyError | Some v \<Rightarrow> Inr v)"

definition count_key :: "json \<Rightarrow> pykey counter \<Rightarrow> py_error + pykey counter" where
  "count_key v c =
     (if truthy v
      then (case hash_key v of None \<Rightarrow> Inl TypeError | Some k \<Rightarrow> Inr (counter_add k 1 c))
      else Inr c)"

definition count_time_132921 :: "pylib \<Rightarrow> json \<Rightarrow> breakdowns_132921 \<Rightarrow> py_error + breakdowns_132921" where
  "count_time_132921 L v b =
     (if truthy v
      then (case v of
              JStr s \<Rightarrow>
                (case fromisoformat L (replace_Z s) of
                   None \<Rightarrow> Inl ValueError
                 | Some dt \<Rightarrow>
                     Inr (b\<lparr>hourly_distribution_132921 :=
                              counter_add (dt_hour dt) 1 (hourly_distribution_132921 b),
                            daily_distribution_132921 :=
                              counter_add (strftime_ymd L dt) 1 (daily_distribution_132921 b)\<rparr>))
            | _ \<Rightarrow> Inl AttributeError)
      else Inr b)"

definition activity_step_132921 :: "pylib \<Rightarrow> alert \<Rightarrow> breakdowns_132921 \<Rightarrow> py_error + breakdowns_132921" where
  "activity_step_132921 L alert b =
     bind_err (subscript alert ''level'') (\<lambda>level.
     bind_err (count_key level (severity_breakdown_132921 b)) (\<lambda>sev.
     bind_err (subscript alert ''resourceType'') (\<lambda>resource_type.
     bind_err (count_key resource_type (resource_type_breakdown_132921 b)) (\<lambda>rt.
     bind_err (subscript alert ''resourceGroup'') (\<lambda>resource_group.
     bind_err (count_key resource_group (resource_group_breakdown_132921 b)) (\<lambda>rg.
     bind_err (subscript alert ''resourceId'') (\<lambda>resource_id.
     bind_err (count_key resource_id (top_alerting_resources_132921 b)) (\<lambda>res.
     bind_err (subscript alert ''timestamp'') (\<lambda>timestamp.
       count_time_132921 L timestamp
         (b\<lparr>severity_breakdown_132921 := sev,
            resource_type_breakdown_132921 := rt,
            resource_group_breakdown_132921 := rg,
            top_alerting_resources_132921 := res\<rparr>))))))))))"

definition history_step_132921 :: "alert \<Rightarrow> breakdowns_132921 \<Rightarrow> py_error + breakdowns_132921" where
  "history_step_132921 alert b =
     bind_err (count_key (dict_get alert ''severity'') (severity_breakdown_132921 b)) (\<lambda>sev.
     bind_err (count_key (dict_get alert ''targetResourceType'') (resource_type_breakdown_132921 b)) (\<lambda>rt.
     bind_err (count_key (dict_get alert ''targetResourceGroup'') (resource_group_breakdown_132921 b)) (\<lambda>rg.
     bind_err (count_key (dict_get alert ''targetResource'') (top_alerting_resources_132921 b)) (\<lambda>res.
       Inr (b\<lparr>severity_breakdown_132921 := sev,
              resource_type_breakdown_132921 := rt,
              resource_group_breakdown_132921 := rg,
              top_alerting_resources_132921 := res\<rparr>)))))"

definition initial_breakdowns_132921 :: breakdowns_132921 where
  "initial_breakdowns_132921 =
     \<lparr>severity_breakdown_132921 = [], resource_type_breakdown_132921 = [],
      resource_group_breakdown_132921 = [], hourly_distribution_132921 = [],
      daily_distribution_132921 = [], top_alerting_resources_132921 = []\<rparr>"

definition count_breakdowns_132921 :: "pylib \<Rightarrow> alert list \<Rightarrow> alert list \<Rightarrow> py_error + breakdowns_132921" where
  "count_breakdowns_132921 L activity_alerts alert_history =
     bind_err (for_each (activity_step_132921 L) activity_alerts initial_breakdowns_132921)
       (for_each history_step_132921 alert_history)"

section \<open>The report figures\<close>

text \<open>
  The numbers that \<^verbatim>\<open>generate_report\<close> computes before it formats them. A float is
  represented by the exact quotient; \<^verbatim>\<open>/\<close> raises \<^verbatim>\<open>ZeroDivisionError\<close> on a zero
  divisor. A rate that the report prints only under a guard is \<open>None\<close> when the guard
  fails.
\<close>

definition true_div :: "int \<Rightarrow> int \<Rightarrow> py_error + rat" where
  "true_div x y = (if y = 0 then Inl ZeroDivisionError else Inr (of_int x / of_int y))"

text \<open>\<^verbatim>\<open>(count / total * 100) if total > 0 else 0\<close>, in the report and in the dashboard.\<close>

definition percentage :: "int \<Rightarrow> int \<Rightarrow> rat" where
  "percentage cnt tot = (if tot > 0 then of_int cnt / of_int tot * 100 else 0)"

definition guarded_rate :: "nat \<Rightarrow> nat \<Rightarrow> rat option" where
  "guarded_rate part new_cnt =
     (if new_cnt > 0 then Some (of_nat part / of_nat new_cnt * 100) else None)"

record report_figures =
  average_alerts_per_day :: rat
  severity_percentages :: "(string \<times> int \<times> rat) list"
  state_percentages :: "(string \<times> int \<times> rat) list"
  acknowledgment_rate :: "rat option"
  resolution_rate :: "rat option"
  high_alert_volume :: bool
  low_sev_percentage :: rat

definition percentages_of :: "string counter \<Rightarrow> int \<Rightarrow> (string \<times> int \<times> rat) list" where
  "percentages_of c tot =
     map (\<lambda>(k, cnt). (k, cnt, percentage cnt tot)) (most_common (length c) c)"

definition generate_report :: "analysis \<Rightarrow> int \<Rightarrow> py_error + report_figures" where
  "generate_report a days_back =
     bind_err (true_div (int (total_alerts a)) days_back) (\<lambda>average.
       Inr \<lparr>average_alerts_per_day = average,
            severity_percentages = percentages_of (severity_breakdown a) (int (total_alerts a)),
            state_percentages = percentages_of (alert_state_breakdown a) (int (total_alerts a)),
            acknowledgment_rate = guarded_rate (acknowledged_alerts a) (new_alerts a),
            resolution_rate = guarded_rate (closed_alerts a) (new_alerts a),
            high_alert_volume = (average > 100),
            low_sev_percentage =
              of_int (counter_get (severity_breakdown a) ''Warning''
                      + counter_get (severity_breakdown a) ''Informational'')
              / of_int (max (int (total_alerts a)) 1) * 100\<rparr>)"

section \<open>The tenant rollup\<close>

text \<open>
  \<^verbatim>\<open>aggregate_subscription_data\<close> of the dashboard script (run of 17:19:57). A stored
  analysis document is read with \<^verbatim>\<open>.get\<close>: a key can be missing (\<open>None\<close>). A subscription
  directory has a name and an identifier (\<^verbatim>\<open>"Unknown"\<close> without the sidecar file) and may
  have no document at all.
\<close>

record analysis_doc =
  doc_total_alerts :: "int option"
  doc_severity_breakdown :: "(string \<times> int) list option"
  doc_alert_state_breakdown :: "(string \<times> int) list option"
  doc_alert_state_by_severity :: "(string \<times> (string \<times> int) list) list option"
  doc_alert_lifecycle_metrics :: "(string \<times> int) list option"
  doc_top_alerts_by_severity :: "(string \<times> (string \<times> int) list) list option"
  doc_resource_type_breakdown :: "(string \<times> int) list option"
  doc_resource_group_breakdown :: "(string \<times> int) list option"
  doc_top_alerting_resources :: "(string \<times> int) list option"

record subscription =
  sub_dir :: string
  sub_name :: string
  sub_id :: string
  sub_data :: "analysis_doc option"

record subscription_summary =
  summary_name :: string
  summary_id :: string
  summary_directory :: string
  summary_total_alerts :: int
  summary_severity_breakdown :: "(string \<times> int) list"
  has_data :: bool

text \<open>
  The dictionary \<^verbatim>\<open>consolidated\<close>. Its time distributions and its three detail lists are
  created empty and never written: they are left out.
\<close>

record consolidated =
  tenant_total_alerts :: int
  tenant_severity_breakdown :: "string counter"
  tenant_alert_state_breakdown :: "string counter"
  tenant_alert_state_by_severity :: "(string \<times> string counter) list"
  tenant_new_alerts :: int
  tenant_acknowledged_alerts :: int
  tenant_closed_alerts :: int
  tenant_top_alerts_by_severity :: "(string \<times> string counter) list"
  tenant_resource_type_breakdown :: "string counter"
  tenant_resource_group_breakdown :: "string counter"
  tenant_top_alerting_resources :: "string counter"
  subscription_summary :: "subscription_summary list"

definition initial_consolidated :: consolidated where
  "initial_consolidated =
     \<lparr>tenant_total_alerts = 0,
      tenant_severity_breakdown = [],
      tenant_alert_state_breakdown = [],
      tenant_alert_state_by_severity = [],
      tenant_new_alerts = 0,
      tenant_acknowledged_alerts = 0,
      tenant_closed_alerts = 0,
      tenant_top_alerts_by_severity =
        [(''Sev0'', []), (''Sev1'', []), (''Sev2'', []), (''Sev3'', []), (''Sev4'', [])],
      tenant_resource_type_breakdown = [],
      tenant_resource_group_breakdown = [],
      tenant_top_alerting_resources = [],
      subscription_summary = []\<rparr>"

text \<open>\<^verbatim>\<open>sub_data.get(field, {})\<close> and \<^verbatim>\<open>sub_data.get(field, 0)\<close>\<close>

definition get_items :: "'a list option \<Rightarrow> 'a list" where
  "get_items field = (case field of None \<Rightarrow> [] | Some items \<Rightarrow> items)"

definition get_int :: "int option \<Rightarrow> int" where
  "get_int field = (case field of None \<Rightarrow> 0 | Some n \<Rightarrow> n)"

text \<open>\<^verbatim>\<open>for k, count in items: c[k] += count\<close>\<close>

definition add_items :: "(string \<times> int) list \<Rightarrow> string counter \<Rightarrow> string counter" where
  "add_items items c = fold (\<lambda>(k, v). counter_add k v) items c"

text \<open>\<^verbatim>\<open>for severity, states in items: for state, count in states.items(): n[severity][state] += count\<close>\<close>

definition add_nested_items :: "(string \<times> (string \<times> int) list) list \<Rightarrow> (string \<times> string counter) list \<Rightarrow> (string \<times> string counter) list" where
  "add_nested_items items n = fold (\<lambda>(s, states). fold (\<lambda>(k, v). nested_add s k v) states) items n"

text \<open>The loop over the five severities, each merged only when the document has it.\<close>

definition add_top_alerts :: "(string \<times> (string \<times> int) list) list \<Rightarrow> (string \<times> string counter) list \<Rightarrow> (string \<times> string counter) list" where
  "add_top_alerts items n =
     fold (\<lambda>severity n'.
             case map_of items severity of
               None \<Rightarrow> n'
             | Some names \<Rightarrow> fold (\<lambda>(k, v). nested_add severity k v) names n')
       [''Sev0'', ''Sev1'', ''Sev2'', ''Sev3'', ''Sev4''] n"

definition merge_subscription :: "subscription \<Rightarrow> consolidated \<Rightarrow> consolidated" where
  "merge_subscription sub c =
     (case sub_data sub of
        Some d \<Rightarrow>
          c\<lparr>tenant_total_alerts := tenant_total_alerts c + get_int (doc_total_alerts d),
            tenant_severity_breakdown :=
              add_items (get_items (doc_severity_breakdown d)) (tenant_severity_breakdown c),
            tenant_alert_state_breakdown :=
              add_items (get_items (doc_alert_state_breakdown d)) (tenant_alert_state_breakdown c),
            tenant_alert_state_by_severity :=
              add_nested_items (get_items (doc_alert_state_by_severity d))
                (tenant_alert_state_by_severity c),
            tenant_new_alerts :=
              tenant_new_alerts c
              + counter_get (get_items (doc_alert_lifecycle_metrics d)) ''new_alerts'',
            tenant_acknowledged_alerts :=
              tenant_acknowledged_alerts c
              + counter_get (get_items (doc_alert_lifecycle_metrics d)) ''acknowledged_alerts'',
            tenant_closed_alerts :=
              tenant_closed_alerts c
              + counter_get (get_items (doc_alert_lifecycle_metrics d)) ''closed_alerts'',
            tenant_top_alerts_by_severity :=
              add_top_alerts (get_items (doc_top_alerts_by_severity d))
                (tenant_top_alerts_by_severity c),
            tenant_resource_type_breakdown :=
              add_items (get_items (doc_resource_type_breakdown d)) (tenant_resource_type_breakdown c),
            tenant_resource_group_breakdown :=
              add_items (get_items (doc_resource_group_breakdown d)) (tenant_resource_group_breakdown c),
            tenant_top_alerting_resources :=
              add_items (get_items (doc_top_alerting_resources d)) (tenant_top_alerting_resources c),
            subscription_summary :=
              subscription_summary c @
              [\<lparr>summary_name = sub_name sub, summary_id = sub_id sub,
                summary_directory = sub_dir sub,
                summary_total_alerts = get_int (doc_total_alerts d),
                summary_severity_breakdown = get_items (doc_severity_breakdown d),
                has_data = (get_int (doc_total_alerts d) > 0)\<rparr>]\<rparr>
      | None \<Rightarrow>
          c\<lparr>subscription_summary :=
              subscription_summary c @
              [\<lparr>summary_name = sub_name sub, summary_id = sub_id sub,
                summary_directory = sub_dir sub,
                summary_total_alerts = 0,
                summary_severity_breakdown = [],
                has_data = False\<rparr>]\<rparr>)"

definition aggregate_subscription_data :: "subscription list \<Rightarrow> consolidated" where
  "aggregate_subscription_data subscription_dirs =
     fold merge_subscription subscription_dirs initial_consolidated"

text \<open>
  What two rollups are compared on: the totals. A counter is read as the mapping from
  its keys to their counts, which is how two Python dictionaries compare.
\<close>

definition nested_view :: "(string \<times> string counter) list \<Rightarrow> string \<Rightarrow> (string \<rightharpoonup> int) option" where
  "nested_view n = map_option map_of \<circ> map_of n"

definition tenant_totals ::
  "consolidated \<Rightarrow>
   int \<times> (string \<rightharpoonup> int) \<times> (string \<rightharpoonup> int) \<times> (string \<Rightarrow> (string \<rightharpoonup> int) option)
   \<times> (int \<times> int \<times> int) \<times> (string \<Rightarrow> (string \<rightharpoonup> int) option)
   \<times> (string \<rightharpoonup> int) \<times> (string \<rightharpoonup> int) \<times> (string \<rightharpoonup> int)" where
  "tenant_totals c =
     (tenant_total_alerts c,
      map_of (tenant_severity_breakdown c),
      map_of (tenant_alert_state_breakdown c),
      nested_view (tenant_alert_state_by_severity c),
      (tenant_new_alerts c, tenant_acknowledged_alerts c, tenant_closed_alerts c),
      nested_view (tenant_top_alerts_by_severity c),
      map_of (tenant_resource_type_breakdown c),
      map_of (tenant_resource_group_breakdown c),
      map_of (tenant_top_alerting_resources c))"

section \<open>Notions used to state the properties\<close>

text \<open>The records of a window: those whose timestamp truncates to a key equal to \<open>w\<close>.\<close>

definition window_records :: "pylib \<Rightarrow> datetime \<Rightarrow> alert list \<Rightarrow> alert list" where
  "window_records L w activity_alerts =
     filter (\<lambda>a. case alert_window L a of None \<Rightarrow> False | Some w' \<Rightarrow> dt_eq w' w) activity_alerts"

text \<open>The records of a correlation group: those whose \<^verbatim>\<open>correlationId\<close> is the string \<open>cid\<close>.\<close>

definition correlated_records :: "string \<Rightarrow> alert list \<Rightarrow> alert list" where
  "correlated_records cid activity_alerts =
     filter (\<lambda>a. str_field (dict_get a ''correlationId'') = Some cid) activity_alerts"

text \<open>The lists stored under the keys of a grouping dictionary that fall in one class.\<close>

definition lookup_group :: "('k \<Rightarrow> 'c) \<Rightarrow> ('k \<times> 'v list) list \<Rightarrow> 'c \<Rightarrow> 'v list list" where
  "lookup_group key g c = map snd (filter (\<lambda>(k, vs). key k = c) g)"

text \<open>The class of a \<^verbatim>\<open>datetime\<close> key under \<open>dt_eq\<close>.\<close>

definition dt_key :: "datetime \<Rightarrow> datetime + int" where
  "dt_key d = (case dt_utcoffset d of None \<Rightarrow> Inl d | Some x \<Rightarrow> Inr (local_microseconds d - x))"

text \<open>
  Counting one optional key, and the number of records of a list that yield a given key.
\<close>

definition count_opt :: "'k option \<Rightarrow> 'k counter \<Rightarrow> 'k counter" where
  "count_opt ko c = (case ko of None \<Rightarrow> c | Some k \<Rightarrow> counter_add k 1 c)"

definition occurrences :: "('x \<Rightarrow> 'k option) \<Rightarrow> 'k \<Rightarrow> 'x list \<Rightarrow> int" where
  "occurrences f k xs = int (length (filter (\<lambda>x. f x = Some k) xs))"

text \<open>
  A resource type that can be counted: a falsy one is skipped, a truthy one must give a
  hashable value.
\<close>

definition countable_resource_type :: "pylib \<Rightarrow> json \<Rightarrow> bool" where
  "countable_resource_type L v =
     (if truthy v then hash_key (resource_type_str L v) \<noteq> None else True)"

text \<open>The key under which a resource type is counted, if it is counted.\<close>

definition resource_type_key :: "pylib \<Rightarrow> json \<Rightarrow> pykey option" where
  "resource_type_key L v = (if truthy v then hash_key (resource_type_str L v) else None)"

text \<open>
  The entry of \<^verbatim>\<open>top_alerts_by_severity\<close> that an alert-history record is counted in, if
  any, for the severities \<open>keys\<close> that the structure has.
\<close>

definition top_alert_key :: "string list \<Rightarrow> alert \<Rightarrow> (string \<times> string) option" where
  "top_alert_key keys alert =
     (case str_field (dict_get alert ''severity'') of
        None \<Rightarrow> None
      | Some severity \<Rightarrow>
          (case dict_get_default alert ''name'' (JStr ''Unknown Alert'') of
             JStr alert_name \<Rightarrow> if severity \<in> set keys then Some (severity, alert_name) else None
           | _ \<Rightarrow> None))"

text \<open>
  The rollup, cell by cell. A cell is one number of the tenant document: the total, a
  lifecycle counter, or the count under one key of one of the counting maps.
  \<open>tenant_cell\<close> reads it from the rollup and \<open>doc_cell\<close> from one stored document, a
  missing file, a missing map and a missing key reading as 0. (In \<open>doc_cell\<close> the
  top-alerts map is read under the five severities only, as the rollup reads it.)
\<close>

datatype cell =
    Total
  | NewAlerts
  | AcknowledgedAlerts
  | ClosedAlerts
  | Severity string
  | AlertState string
  | StateBySeverity string string
  | TopAlert string string
  | ResourceType string
  | ResourceGroup string
  | Resource string

definition items_sum :: "('k \<times> int) list \<Rightarrow> 'k \<Rightarrow> int" where
  "items_sum items k = sum_list (map snd (filter (\<lambda>kv. fst kv = k) items))"

definition doc_items :: "(analysis_doc \<Rightarrow> 'a list option) \<Rightarrow> subscription \<Rightarrow> 'a list" where
  "doc_items field sub = (case sub_data sub of None \<Rightarrow> [] | Some d \<Rightarrow> get_items (field d))"

definition doc_int :: "(analysis_doc \<Rightarrow> int) \<Rightarrow> subscription \<Rightarrow> int" where
  "doc_int field sub = (case sub_data sub of None \<Rightarrow> 0 | Some d \<Rightarrow> field d)"

definition nested_items :: "(string \<times> (string \<times> int) list) list \<Rightarrow> ((string \<times> string) \<times> int) list" where
  "nested_items items = concat (map (\<lambda>(s, states). map (\<lambda>(k, v). ((s, k), v)) states) items)"

definition top_alert_items :: "(string \<times> (string \<times> int) list) list \<Rightarrow> ((string \<times> string) \<times> int) list" where
  "top_alert_items items =
     concat (map (\<lambda>s. case map_of items s of
                         None \<Rightarrow> []
                       | Some names \<Rightarrow> map (\<lambda>(k, v). ((s, k), v)) names)
               [''Sev0'', ''Sev1'', ''Sev2'', ''Sev3'', ''Sev4''])"

fun tenant_cell :: "consolidated \<Rightarrow> cell \<Rightarrow> int" where
  "tenant_cell c Total = tenant_total_alerts c"
| "tenant_cell c NewAlerts = tenant_new_alerts c"
| "tenant_cell c AcknowledgedAlerts = tenant_acknowledged_alerts c"
| "tenant_cell c ClosedAlerts = tenant_closed_alerts c"
| "tenant_cell c (Severity k) = counter_get (tenant_severity_breakdown c) k"
| "tenant_cell c (AlertState k) = counter_get (tenant_alert_state_breakdown c) k"
| "tenant_cell c (StateBySeverity s k) = nested_get (tenant_alert_state_by_severity c) s k"
| "tenant_cell c (TopAlert s k) = nested_get (tenant_top_alerts_by_severity c) s k"
| "tenant_cell c (ResourceType k) = counter_get (tenant_resource_type_breakdown c) k"
| "tenant_cell c (ResourceGroup k) = counter_get (tenant_resource_group_breakdown c) k"
| "tenant_cell c (Resource k) = counter_get (tenant_top_alerting_resources c) k"

fun doc_cell :: "subscription \<Rightarrow> cell \<Rightarrow> int" where
  "doc_cell sub Total = doc_int (\<lambda>d. get_int (doc_total_alerts d)) sub"
| "doc_cell sub NewAlerts =
     doc_int (\<lambda>d. counter_get (get_items (doc_alert_lifecycle_metrics d)) ''new_alerts'') sub"
| "doc_cell sub AcknowledgedAlerts =
     doc_int (\<lambda>d. counter_get (get_items (doc_alert_lifecycle_metrics d)) ''acknowledged_alerts'') sub"
| "doc_cell sub ClosedAlerts =
     doc_int (\<lambda>d. counter_get (get_items (doc_alert_lifecycle_metrics d)) ''closed_alerts'') sub"
| "doc_cell sub (Severity k) = items_sum (doc_items doc_severity_breakdown sub) k"
| "doc_cell sub (AlertState k) = items_sum (doc_items doc_alert_state_breakdown sub) k"
| "doc_cell sub (StateBySeverity s k) =
     items_sum (nested_items (doc_items doc_alert_state_by_severity sub)) (s, k)"
| "doc_cell sub (TopAlert s k) =
     items_sum (top_alert_items (doc_items doc_top_alerts_by_severity sub)) (s, k)"
| "doc_cell sub (ResourceType k) = items_sum (doc_items doc_resource_type_breakdown sub) k"
| "doc_cell sub (ResourceGroup k) = items_sum (doc_items doc_resource_group_breakdown sub) k"
| "doc_cell sub (Resource k) = items_sum (doc_items doc_top_alerting_resources sub) k"

text \<open>
  Counting, seen on the mapping that a counter denotes: \<open>acc (k, v)\<close> is \<^verbatim>\<open>m[k] += v\<close>.
  \<open>flat_view\<close> reads a dictionary of counters as one mapping on pairs of keys.
\<close>

definition acc :: "'k \<times> int \<Rightarrow> ('k \<rightharpoonup> int) \<Rightarrow> ('k \<rightharpoonup> int)" where
  "acc kv m = m(fst kv \<mapsto> (case m (fst kv) of None \<Rightarrow> 0 | Some n \<Rightarrow> n) + snd kv)"

definition flat_view :: "(string \<times> 'k counter) list \<Rightarrow> (string \<times> 'k) \<rightharpoonup> int" where
  "flat_view n = (\<lambda>(s, k). case map_of n s of None \<Rightarrow> None | Some c \<Rightarrow> map_of c k)"

definition lookup0 :: "('k \<rightharpoonup> int) \<Rightarrow> 'k \<Rightarrow> int" where
  "lookup0 m k = (case m k of None \<Rightarrow> 0 | Some n \<Rightarrow> n)"

text \<open>A number of the rollup, seen as a counter with the one key \<open>()\<close>.\<close>

definition scalar_items :: "(analysis_doc \<Rightarrow> int) \<Rightarrow> subscription \<Rightarrow> (unit \<times> int) list" where
  "scalar_items field sub = (case sub_data sub of None \<Rightarrow> [] | Some d \<Rightarrow> [((), field d)])"

section \<open>Sample inputs\<close>

text \<open>
  An instance of the library functions, tabulated on the strings and values that the
  examples use, where it agrees with the library.
\<close>

definition sample_datetime :: "nat \<Rightarrow> nat \<Rightarrow> nat \<Rightarrow> int \<Rightarrow> datetime" where
  "sample_datetime h m s off =
     \<lparr>dt_year = 2025, dt_month = 8, dt_day = 22, dt_hour = h, dt_minute = m, dt_second = s,
      dt_microsecond = 0, dt_utcoffset = Some off\<rparr>"

definition sample_pylib :: pylib where
  "sample_pylib =
     \<lparr>fromisoformat = map_of
        [(''2025-08-22T10:00:00+00:00'', sample_datetime 10 0 0 0),
         (''2025-08-22T10:04:59+00:00'', sample_datetime 10 4 59 0),
         (''2025-08-22T11:03:30+01:00'', sample_datetime 11 3 30 3600000000),
         (''2025-08-22T10:05:00+00:00'', sample_datetime 10 5 0 0)],
      strftime_ymd = (\<lambda>d. if (dt_year d, dt_month d, dt_day d) = (2025, 8, 22) then ''2025-08-22'' else []),
      isoformat = (\<lambda>d. if d = sample_datetime 10 0 0 0 then ''2025-08-22T10:00:00+00:00''
                        else if d = sample_datetime 10 5 0 0 then ''2025-08-22T10:05:00+00:00''
                        else []),
      py_str = (\<lambda>v. if v = JInt 5 then ''5'' else [])\<rparr>"

definition activity_record :: "string \<Rightarrow> string \<Rightarrow> string \<Rightarrow> string \<Rightarrow> alert" where
  "activity_record resource level timestamp correlation =
     [(''resourceId'', JStr resource), (''level'', JStr level), (''timestamp'', JStr timestamp),
      (''correlationId'', JStr correlation)]"

definition history_record :: "string \<Rightarrow> string \<Rightarrow> string \<Rightarrow> alert" where
  "history_record resource severity correlation =
     [(''targetResource'', JStr resource), (''severity'', JStr severity),
      (''correlationId'', JStr correlation)]"

definition storm_sample :: "nat \<Rightarrow> alert list" where
  "storm_sample n =
     replicate n (activity_record ''resourceA'' ''Error'' ''2025-08-22T10:00:00Z'' ''op-1'')
     @ [activity_record ''resourceA'' ''Error'' ''2025-08-22T10:04:59Z'' ''op-1'',
        activity_record ''resourceB'' ''Error'' ''2025-08-22T11:03:30+01:00'' [],
        activity_record ''resourceB'' ''Error'' ''2025-08-22T10:05:00Z'' ''op-2'']"

definition tuning_sample :: "nat \<Rightarrow> nat \<Rightarrow> alert list" where
  "tuning_sample low other =
     replicate low (activity_record ''resourceA'' ''Warning'' ''2025-08-22T10:00:00Z'' ''op-1'')
     @ replicate other (activity_record ''resourceA'' ''Error'' ''2025-08-22T10:00:00Z'' ''op-1'')"

definition activity_record_132921 :: "string \<Rightarrow> string \<Rightarrow> alert" where
  "activity_record_132921 resource timestamp =
     [(''level'', JStr ''Error''), (''resourceType'', JStr ''Microsoft.Compute/virtualMachines''),
      (''resourceGroup'', JStr ''rg-prod''), (''resourceId'', JStr resource),
      (''timestamp'', JStr timestamp)]"

definition timed_history_record :: "string \<Rightarrow> string \<Rightarrow> alert" where
  "timed_history_record severity start =
     [(''severity'', JStr severity), (''startDateTime'', JStr start)]"

definition malformed_record :: alert where
  "malformed_record =
     [(''level'', JInt 3), (''resourceType'', JInt 5), (''resourceGroup'', JNull),
      (''resourceId'', JStr ''resourceA''), (''timestamp'', JStr ''yesterday'')]"

definition sample_doc :: "int \<Rightarrow> string \<Rightarrow> int \<Rightarrow> analysis_doc" where
  "sample_doc n severity m =
     \<lparr>doc_total_alerts = Some n,
      doc_severity_breakdown = Some [(''Error'', n - m), (severity, m)],
      doc_alert_state_breakdown = Some [(''New'', m)],
      doc_alert_state_by_severity = Some [(severity, [(''New'', m)])],
      doc_alert_lifecycle_metrics =
        Some [(''new_alerts'', m), (''acknowledged_alerts'', 0), (''closed_alerts'', 0)],
      doc_top_alerts_by_severity = Some [(severity, [(''ResourceHealthUnhealthyAlert'', m)])],
      doc_resource_type_breakdown = Some [(''Microsoft.Compute/virtualMachines'', n)],
      doc_resource_group_breakdown = None,
      doc_top_alerting_resources = Some [(''resourceA'', n - m), (''resourceH'', m)]\<rparr>"

definition sample_subscriptions :: "subscription list" where
  "sample_subscriptions =
     [\<lparr>sub_dir = ''subscription_2'', sub_name = ''Prod'', sub_id = ''0002'',
       sub_data = Some (sample_doc 7 ''Sev1'' 3)\<rparr>,
      \<lparr>sub_dir = ''subscription_3'', sub_name = ''Training'', sub_id = ''0003'',
       sub_data = Some (sample_doc 5 ''Sev1'' 2)\<rparr>,
      \<lparr>sub_dir = ''subscription_4'', sub_name = ''Unknown'', sub_id = ''Unknown'',
       sub_data = None\<rparr>]"

section \<open>Grouping dictionaries\<close>

text \<open>
  When the dictionary's equality is the equality of classes \<open>key\<close>, the lists stored for
  a class are none, or the one list of the records of that class in input order.
\<close>

lemma lookup_group_append_other:
  assumes "\<And>a b. same a b = (key a = key b)" and "key k \<noteq> c"
  shows "lookup_group key (group_append same k v g) c = lookup_group key g c"
  using assms by (induction g) (auto simp: lookup_group_def)

lemma lookup_group_append_new:
  assumes "\<And>a b. same a b = (key a = key b)" and "lookup_group key g (key k) = []"
  shows "lookup_group key (group_append same k v g) (key k) = [[v]]"
  using assms by (induction g) (auto simp: lookup_group_def split: if_splits)

lemma lookup_group_append_old:
  assumes "\<And>a b. same a b = (key a = key b)" and "lookup_group key g (key k) = [vs]"
  shows "lookup_group key (group_append same k v g) (key k) = [vs @ [v]]"
  using assms by (induction g) (auto simp: lookup_group_def split: if_splits)

lemma lookup_group_fold:
  assumes same: "\<And>a b. same a b = (key a = key b)"
  shows "lookup_group key
           (fold (\<lambda>a g. case wk a of None \<Rightarrow> g | Some k \<Rightarrow> group_append same k a g) xs []) c =
         (if filter (\<lambda>a. map_option key (wk a) = Some c) xs = [] then []
          else [filter (\<lambda>a. map_option key (wk a) = Some c) xs])"
proof (induction xs rule: rev_induct)
  case Nil
  show ?case by (simp add: lookup_group_def)
next
  case (snoc x xs)
  define P where "P = (\<lambda>a. map_option key (wk a) = Some c)"
  define G where "G = fold (\<lambda>a g. case wk a of None \<Rightarrow> g | Some k \<Rightarrow> group_append same k a g) xs []"
  have IH: "lookup_group key G c = (if filter P xs = [] then [] else [filter P xs])"
    using snoc unfolding P_def G_def .
  have "lookup_group key (case wk x of None \<Rightarrow> G | Some k \<Rightarrow> group_append same k x G) c =
        (if filter P (xs @ [x]) = [] then [] else [filter P (xs @ [x])])"
  proof (cases "wk x")
    case None
    then have "\<not> P x" by (simp add: P_def)
    with None IH show ?thesis by simp
  next
    case (Some k)
    show ?thesis
    proof (cases "key k = c")
      case True
      then have Px: "P x" using Some by (simp add: P_def)
      show ?thesis
      proof (cases "filter P xs = []")
        case True
        with IH have "lookup_group key G (key k) = []" using \<open>key k = c\<close> by simp
        from lookup_group_append_new [OF same this] Some Px True \<open>key k = c\<close>
        show ?thesis by simp
      next
        case False
        with IH have "lookup_group key G (key k) = [filter P xs]" using \<open>key k = c\<close> by simp
        from lookup_group_append_old [OF same this] Some Px False \<open>key k = c\<close>
        show ?thesis by simp
      qed
    next
      case False
      then have "\<not> P x" using Some by (simp add: P_def)
      with Some False IH show ?thesis
        by (simp add: lookup_group_append_other [OF same])
    qed
  qed
  then show ?case unfolding P_def G_def by simp
qed

section \<open>Evaluation of the samples\<close>

lemma replace_Z_samples:
  "replace_Z ''2025-08-22T10:00:00Z'' = ''2025-08-22T10:00:00+00:00''"
  "replace_Z ''2025-08-22T10:04:59Z'' = ''2025-08-22T10:04:59+00:00''"
  "replace_Z ''2025-08-22T11:03:30+01:00'' = ''2025-08-22T11:03:30+01:00''"
  "replace_Z ''2025-08-22T10:05:00Z'' = ''2025-08-22T10:05:00+00:00''"
  by simp_all




lemma correlated_records_sample:
  "length (correlated_records ''op-1'' (storm_sample n)) = n + 1"
  by (simp add: correlated_records_def storm_sample_def activity_record_def dict_get_def)

section \<open>Alert storms: the threshold\<close>

lemma dt_eq_key: "dt_eq a b = (dt_key a = dt_key b)"
  by (auto simp: dt_eq_def dt_key_def split: option.splits)

lemma storms_by_window_counts:
  "map (\<lambda>(k, s). storm_count s) (filter (\<lambda>(k, s). dt_key k = c) (storms_by_window L g)) =
   map length (filter (\<lambda>vs. length vs > 10) (lookup_group dt_key g c))"
  by (induction g) (auto simp: lookup_group_def)

lemma time_windows_fold:
  "time_windows L acts =
   fold (\<lambda>a g. case alert_window L a of None \<Rightarrow> g
                | Some k \<Rightarrow> group_append dt_eq k a g) acts []"
  unfolding time_windows_def storm_step_def ..

lemma time_windows_lookup:
  "lookup_group dt_key (time_windows L acts) (dt_key w) =
   (if window_records L w acts = [] then [] else [window_records L w acts])"
proof -
  have eq: "(\<lambda>a. map_option dt_key (alert_window L a) = Some (dt_key w)) =
        (\<lambda>a. case alert_window L a of None \<Rightarrow> False | Some w' \<Rightarrow> dt_eq w' w)"
    by (auto simp: dt_eq_key split: option.splits)
  have "lookup_group dt_key (time_windows L acts) (dt_key w) =
        (if filter (\<lambda>a. map_option dt_key (alert_window L a) = Some (dt_key w)) acts = [] then []
         else [filter (\<lambda>a. map_option dt_key (alert_window L a) = Some (dt_key w)) acts])"
    unfolding time_windows_fold by (rule lookup_group_fold) (rule dt_eq_key)
  then show ?thesis unfolding eq window_records_def .
qed

text \<open>
  The storms built from the entries of one window: none when the window holds at most
  10 records, and one, whose count is the number of records of the window, when it
  holds more.
\<close>

lemma storms_of_window:
  "map (\<lambda>(k, s). storm_count s)
     (filter (\<lambda>(k, s). dt_eq k w) (storms_by_window L (time_windows L activity_alerts))) =
   (if length (window_records L w activity_alerts) > 10
    then [length (window_records L w activity_alerts)]
    else [])"
  by (simp add: dt_eq_key storms_by_window_counts time_windows_lookup)

section \<open>Correlation patterns: the threshold\<close>

lemma correlation_patterns_of_counts:
  "map pattern_alert_count (filter (\<lambda>p. correlation_id p = cid) (correlation_patterns_of g)) =
   map length (filter (\<lambda>vs. length vs > 2) (lookup_group id g cid))"
  by (induction g) (auto simp: lookup_group_def)

lemma correlation_groups_fold:
  "correlation_groups acts =
   fold (\<lambda>a g. case str_field (dict_get a ''correlationId'') of None \<Rightarrow> g
                | Some k \<Rightarrow> group_append (=) k a g) acts []"
  unfolding correlation_groups_def correlation_step_def ..

lemma correlation_groups_lookup:
  "lookup_group id (correlation_groups acts) cid =
   (if correlated_records cid acts = [] then [] else [correlated_records cid acts])"
proof -
  have "lookup_group id (correlation_groups acts) cid =
        (if filter (\<lambda>a. map_option id (str_field (dict_get a ''correlationId'')) = Some cid) acts = [] then []
         else [filter (\<lambda>a. map_option id (str_field (dict_get a ''correlationId'')) = Some cid) acts])"
    unfolding correlation_groups_fold by (rule lookup_group_fold) simp
  then show ?thesis by (simp add: correlated_records_def option.map_id)
qed

lemma correlation_patterns_for:
  "map pattern_alert_count
     (filter (\<lambda>p. correlation_id p = cid) (detect_correlation_patterns acts)) =
   (if length (correlated_records cid acts) > 2 then [length (correlated_records cid acts)] else [])"
  by (simp add: detect_correlation_patterns_def correlation_patterns_of_counts
        correlation_groups_lookup)

text \<open>
  C3. For every list of activity records and every correlation id: the patterns emitted
  for the id are none when at most 2 records carry it, and exactly one, whose count is
  the number of those records, when more than 2 do. The records of the id are those whose
  \<^verbatim>\<open>correlationId\<close> is that non-empty string, so a record without one is in no group.
\<close>

theorem correlation_threshold:
  "map pattern_alert_count
     (filter (\<lambda>p. correlation_id p = cid) (detect_correlation_patterns activity_alerts)) =
   (if length (filter (\<lambda>a. str_field (dict_get a ''correlationId'') = Some cid) activity_alerts) > 2
    then [length (filter (\<lambda>a. str_field (dict_get a ''correlationId'') = Some cid) activity_alerts)]
    else [])"
  using correlation_patterns_for [of cid activity_alerts] by (simp add: correlated_records_def)

theorem correlation_threshold_witness:
  "map pattern_alert_count
     (filter (\<lambda>p. correlation_id p = ''op-1'') (detect_correlation_patterns (storm_sample 2))) = [3]
   \<and> map pattern_alert_count
     (filter (\<lambda>p. correlation_id p = ''op-1'') (detect_correlation_patterns (storm_sample 1))) = []"
  using correlation_threshold [of "''op-1''" "storm_sample 2"]
    correlation_threshold [of "''op-1''" "storm_sample 1"]
    correlated_records_sample [of 2] correlated_records_sample [of 1]
  by (simp add: correlated_records_def)

section \<open>Counters\<close>

lemma counter_get_add:
  "counter_get (counter_add k v c) k' = counter_get c k' + (if k = k' then v else 0)"
  by (induction c) (auto simp: counter_get_def)

lemma counter_get_count_opt:
  "counter_get (count_opt ko c) k = counter_get c k + (if ko = Some k then 1 else 0)"
  by (cases ko) (simp_all add: count_opt_def counter_get_add)

lemma counter_get_fold_count_opt:
  "counter_get (fold (\<lambda>x. count_opt (f x)) xs c) k = counter_get c k + occurrences f k xs"
  by (induction xs arbitrary: c) (simp_all add: occurrences_def counter_get_count_opt)

lemma count_str_opt: "count_str v = count_opt (str_field v)"
  by (rule ext) (simp add: count_str_def count_opt_def)

lemma fold_count_opt_same:
  "(\<And>x. x \<in> set xs \<Longrightarrow> f x = Some k) \<Longrightarrow>
   fold (\<lambda>x. count_opt (f x)) xs ((k, n) # c) = (k, n + int (length xs)) # c"
  by (induction xs arbitrary: n) (simp_all add: count_opt_def)

lemma fold_count_opt_single:
  assumes "\<And>x. x \<in> set xs \<Longrightarrow> f x = Some k" and "xs \<noteq> []"
  shows "fold (\<lambda>x. count_opt (f x)) xs [] = [(k, int (length xs))]"
proof (cases xs)
  case Nil
  with assms show ?thesis by simp
next
  case (Cons x ys)
  then have "f x = Some k" and "\<And>y. y \<in> set ys \<Longrightarrow> f y = Some k" using assms by auto
  with Cons fold_count_opt_same [of ys f k 1 "[]"] show ?thesis
    by (simp add: count_opt_def)
qed

section \<open>Loops\<close>

lemma for_each_field:
  assumes "\<And>x s s'. body x s = Inr s' \<Longrightarrow> g s' = h x (g s)"
  shows "for_each body xs s = Inr s' \<Longrightarrow> g s' = fold h xs (g s)"
proof (induction xs arbitrary: s)
  case Nil
  then show ?case by simp
next
  case (Cons x xs)
  from Cons.prems obtain s1 where s1: "body x s = Inr s1" and rest: "for_each body xs s1 = Inr s'"
    by (auto split: sum.splits)
  from Cons.IH [OF rest] assms [OF s1] show ?case by simp
qed

lemma for_each_total:
  assumes "\<And>x s. x \<in> set xs \<Longrightarrow> \<exists>s'. body x s = Inr s'"
  shows "\<exists>s'. for_each body xs s = Inr s'"
  using assms
proof (induction xs arbitrary: s)
  case Nil
  show ?case by simp
next
  case (Cons x xs)
  from Cons.prems [of x s] obtain s1 where s1: "body x s = Inr s1" by auto
  from Cons.IH [of s1] Cons.prems obtain s' where "for_each body xs s1 = Inr s'" by auto
  with s1 show ?case by simp
qed

section \<open>The passes, field by field\<close>

lemma count_time_other [simp]:
  "severity_breakdown (count_time L v a) = severity_breakdown a"
  "alert_state_breakdown (count_time L v a) = alert_state_breakdown a"
  "alert_state_by_severity (count_time L v a) = alert_state_by_severity a"
  "resource_type_breakdown (count_time L v a) = resource_type_breakdown a"
  "resource_group_breakdown (count_time L v a) = resource_group_breakdown a"
  "top_alerting_resources (count_time L v a) = top_alerting_resources a"
  "top_alerts_by_severity (count_time L v a) = top_alerts_by_severity a"
  "total_alerts (count_time L v a) = total_alerts a"
  "new_alerts (count_time L v a) = new_alerts a"
  "acknowledged_alerts (count_time L v a) = acknowledged_alerts a"
  "closed_alerts (count_time L v a) = closed_alerts a"
  by (simp_all add: count_time_def split: option.splits)

lemma count_time_hourly:
  "hourly_distribution (count_time L v a) =
   count_opt (map_option dt_hour (parse_timestamp L v)) (hourly_distribution a)"
  by (simp add: count_time_def count_opt_def split: option.splits)

lemma count_time_daily:
  "daily_distribution (count_time L v a) =
   count_opt (map_option (strftime_ymd L) (parse_timestamp L v)) (daily_distribution a)"
  by (simp add: count_time_def count_opt_def split: option.splits)

lemma activity_step_fields:
  assumes "activity_step L x a = Inr a'"
  shows "top_alerting_resources a' = count_opt (str_field (dict_get x ''resourceId'')) (top_alerting_resources a)"
    and "severity_breakdown a' = count_opt (str_field (dict_get x ''level'')) (severity_breakdown a)"
    and "resource_group_breakdown a' = count_opt (str_field (dict_get x ''resourceGroup'')) (resource_group_breakdown a)"
    and "top_alerts_by_severity a' = top_alerts_by_severity a"
    and "hourly_distribution a' =
         count_opt (map_option dt_hour (parse_timestamp L (dict_get x ''timestamp''))) (hourly_distribution a)"
    and "daily_distribution a' =
         count_opt (map_option (strftime_ymd L) (parse_timestamp L (dict_get x ''timestamp''))) (daily_distribution a)"
    and "total_alerts a' = total_alerts a"
  using assms
  by (auto simp: activity_step_def count_str_opt count_time_hourly count_time_daily split: sum.splits)

lemma history_step_fields:
  assumes "history_step L x a = Inr a'"
  shows "top_alerting_resources a' = count_opt (str_field (dict_get x ''targetResource'')) (top_alerting_resources a)"
    and "severity_breakdown a' = count_opt (str_field (dict_get x ''severity'')) (severity_breakdown a)"
    and "resource_group_breakdown a' = count_opt (str_field (dict_get x ''targetResourceGroup'')) (resource_group_breakdown a)"
    and "top_alerts_by_severity a' = count_top_alert x (top_alerts_by_severity a)"
    and "hourly_distribution a' =
         count_opt (map_option dt_hour (parse_timestamp L (dict_get x ''startDateTime''))) (hourly_distribution a)"
    and "daily_distribution a' =
         count_opt (map_option (strftime_ymd L) (parse_timestamp L (dict_get x ''startDateTime''))) (daily_distribution a)"
    and "total_alerts a' = total_alerts a"
  using assms
  by (auto simp: history_step_def count_str_opt count_time_hourly count_time_daily split: sum.splits)

lemma analyze_alerts_passes:
  assumes "analyze_alerts L acts hist = Inr r"
  obtains a1 a2 where
    "for_each (activity_step L) acts (initial_analysis acts hist) = Inr a1"
    "for_each (history_step L) hist a1 = Inr a2"
    "r = a2\<lparr>alert_storms := detect_alert_storms L acts,
            tuning_recommendations := tuning_recommendations_of acts (top_alerting_resources a2),
            correlation_patterns := detect_correlation_patterns acts\<rparr>"
  using assms by (auto simp: analyze_alerts_def split: sum.splits)

lemma analyze_alerts_detections:
  assumes "analyze_alerts L acts hist = Inr r"
  shows "correlation_patterns r = detect_correlation_patterns acts"
    and "alert_storms r = detect_alert_storms L acts"
    and "tuning_recommendations r = tuning_recommendations_of acts (top_alerting_resources r)"
  using assms by (auto elim!: analyze_alerts_passes)

lemma analyze_alerts_top_alerting_resources:
  assumes "analyze_alerts L acts hist = Inr r"
  shows "top_alerting_resources r =
         fold (\<lambda>x. count_opt (str_field (dict_get x ''targetResource''))) hist
           (fold (\<lambda>x. count_opt (str_field (dict_get x ''resourceId''))) acts [])"
proof -
  from assms obtain a1 a2 where
    p1: "for_each (activity_step L) acts (initial_analysis acts hist) = Inr a1" and
    p2: "for_each (history_step L) hist a1 = Inr a2" and
    r: "r = a2\<lparr>alert_storms := detect_alert_storms L acts,
            tuning_recommendations := tuning_recommendations_of acts (top_alerting_resources a2),
            correlation_patterns := detect_correlation_patterns acts\<rparr>"
    by (rule analyze_alerts_passes)
  have "top_alerting_resources a1 =
        fold (\<lambda>x. count_opt (str_field (dict_get x ''resourceId''))) acts
          (top_alerting_resources (initial_analysis acts hist))"
    by (rule for_each_field [OF _ p1]) (rule activity_step_fields)
  moreover have "top_alerting_resources a2 =
        fold (\<lambda>x. count_opt (str_field (dict_get x ''targetResource''))) hist (top_alerting_resources a1)"
    by (rule for_each_field [OF _ p2]) (rule history_step_fields)
  ultimately show ?thesis using r by (simp add: initial_analysis_def)
qed

section \<open>When the analysis returns\<close>

lemma count_resource_type_total:
  "countable_resource_type L v \<Longrightarrow> \<exists>c'. count_resource_type L v c = Inr c'"
  by (auto simp: countable_resource_type_def count_resource_type_def split: if_splits)

lemma activity_step_total:
  assumes "countable_resource_type L (dict_get x ''resourceType'')"
  shows "\<exists>a'. activity_step L x a = Inr a'"
  using count_resource_type_total [OF assms, of "resource_type_breakdown a"]
  by (auto simp: activity_step_def)

lemma history_step_total:
  assumes "countable_resource_type L (dict_get x ''targetResourceType'')"
  shows "\<exists>a'. history_step L x a = Inr a'"
  using count_resource_type_total [OF assms, of "resource_type_breakdown a"]
  by (auto simp: history_step_def)

lemma analyze_alerts_total:
  assumes "\<And>x. x \<in> set acts \<Longrightarrow> countable_resource_type L (dict_get x ''resourceType'')"
      and "\<And>x. x \<in> set hist \<Longrightarrow> countable_resource_type L (dict_get x ''targetResourceType'')"
  shows "\<exists>r. analyze_alerts L acts hist = Inr r"
proof -
  obtain a1 where a1: "for_each (activity_step L) acts (initial_analysis acts hist) = Inr a1"
    using for_each_total [of acts "activity_step L"] activity_step_total assms(1) by blast
  obtain a2 where a2: "for_each (history_step L) hist a1 = Inr a2"
    using for_each_total [of hist "history_step L"] history_step_total assms(2) by blast
  show ?thesis by (simp add: analyze_alerts_def a1 a2)
qed

lemma sample_records_countable:
  "countable_resource_type L (dict_get (activity_record r l t c) ''resourceType'')"
  "countable_resource_type L (dict_get (history_record r l c) ''targetResourceType'')"
  by (simp_all add: countable_resource_type_def dict_get_def activity_record_def history_record_def)

section \<open>Tuning recommendations\<close>

lemma low_severity_frequent_member:
  "t \<in> set (low_severity_frequent acts items) \<Longrightarrow>
   (rec_resource t, rec_alert_count t) \<in> set items \<and>
   exceeds_0_7 (low_sev_count acts (rec_resource t)) (nat (rec_alert_count t)) \<and>
   rec_alert_count t > 5"
  by (induction items) (auto split: if_splits)

lemma most_common_subset: "set (most_common n c) \<subseteq> set c"
  using set_take_subset [of n "sort_key (\<lambda>(k, v). - v) c"] by (simp add: most_common_def)

lemma tuning_recommendation_member:
  assumes "t \<in> set (tuning_recommendations_of acts tops)"
  shows "(rec_resource t, rec_alert_count t) \<in> set tops"
    and "exceeds_0_7 (low_sev_count acts (rec_resource t)) (nat (rec_alert_count t))"
    and "rec_alert_count t > 5"
  using low_severity_frequent_member [of t acts "most_common 20 tops"] assms most_common_subset [of 20 tops]
  by (auto simp: tuning_recommendations_of_def)

lemma not_exceeds_0_7_zero: "\<not> exceeds_0_7 0 n"
  by (simp add: exceeds_0_7_def)

lemma low_sev_count_absent:
  "JStr resource \<notin> (\<lambda>a. dict_get a ''resourceId'') ` set acts \<Longrightarrow> low_sev_count acts resource = 0"
  by (force simp: low_sev_count_def filter_empty_conv image_iff)

text \<open>
  C10. A resource that no activity record names receives no tuning recommendation,
  whatever the alert-history records say of it: its low-severity count is taken over the
  activity records, so it is 0, and 0 does not exceed the threshold.
\<close>

theorem history_only_resource_not_recommended:
  assumes "analyze_alerts L activity_alerts alert_history = Inr r"
      and "JStr resource \<notin> (\<lambda>a. dict_get a ''resourceId'') ` set activity_alerts"
  shows "resource \<notin> rec_resource ` set (tuning_recommendations r)"
proof
  assume "resource \<in> rec_resource ` set (tuning_recommendations r)"
  then obtain t where t: "t \<in> set (tuning_recommendations r)" and res: "rec_resource t = resource"
    by auto
  from t analyze_alerts_detections(3) [OF assms(1)]
  have "t \<in> set (tuning_recommendations_of activity_alerts (top_alerting_resources r))" by simp
  from tuning_recommendation_member(2) [OF this] res
  have "exceeds_0_7 (low_sev_count activity_alerts resource) (nat (rec_alert_count t))" by simp
  with low_sev_count_absent [OF assms(2)] not_exceeds_0_7_zero show False by simp
qed

lemma history_sample_top:
  assumes "analyze_alerts L [] (replicate (Suc n) (history_record ''resourceH'' sev c)) = Inr r"
  shows "top_alerting_resources r = [(''resourceH'', int (Suc n))]"
proof -
  have "fold (\<lambda>x. count_opt (str_field (dict_get x ''targetResource'')))
          (replicate (Suc n) (history_record ''resourceH'' sev c)) [] =
        [(''resourceH'', int (length (replicate (Suc n) (history_record ''resourceH'' sev c))))]"
    by (rule fold_count_opt_single) (auto simp: history_record_def dict_get_def)
  with analyze_alerts_top_alerting_resources [OF assms] show ?thesis by simp
qed

theorem history_only_resource_not_recommended_witness:
  "JStr ''resourceH'' \<notin> (\<lambda>a. dict_get a ''resourceId'') ` set ([] :: alert list) \<and>
   map_sum id top_alerting_resources
     (analyze_alerts sample_pylib [] (replicate 6 (history_record ''resourceH'' ''Warning'' ''op-3'')))
     = Inr [(''resourceH'', 6)] \<and>
   map_sum id tuning_recommendations
     (analyze_alerts sample_pylib [] (replicate 6 (history_record ''resourceH'' ''Warning'' ''op-3'')))
     = Inr []"
proof -
  define hist where "hist = replicate (Suc 5) (history_record ''resourceH'' ''Warning'' ''op-3'')"
  obtain r where r: "analyze_alerts sample_pylib [] hist = Inr r"
    using analyze_alerts_total [of "[]" sample_pylib hist] sample_records_countable(2)
    by (auto simp: hist_def)
  have none: "JStr ''resourceH'' \<notin> (\<lambda>a. dict_get a ''resourceId'') ` set ([] :: alert list)" by simp
  have tops: "top_alerting_resources r = [(''resourceH'', 6)]"
    using history_sample_top [OF r [unfolded hist_def]] by simp
  have "tuning_recommendations r = []"
  proof (rule ccontr)
    assume "tuning_recommendations r \<noteq> []"
    then obtain t where t: "t \<in> set (tuning_recommendations r)" by (cases "tuning_recommendations r") auto
    with analyze_alerts_detections(3) [OF r]
    have "t \<in> set (tuning_recommendations_of [] (top_alerting_resources r))" by simp
    from tuning_recommendation_member(1) [OF this] tops have "rec_resource t = ''resourceH''" by simp
    with t history_only_resource_not_recommended [OF r none] show False by (metis imageI)
  qed
  with tops r none have "JStr ''resourceH'' \<notin> (\<lambda>a. dict_get a ''resourceId'') ` set ([] :: alert list) \<and>
     map_sum id top_alerting_resources (analyze_alerts sample_pylib [] hist) = Inr [(''resourceH'', 6)] \<and>
     map_sum id tuning_recommendations (analyze_alerts sample_pylib [] hist) = Inr []"
    by simp
  then show ?thesis by (simp add: hist_def eval_nat_numeral)
qed

section \<open>Correlation and the alert history\<close>

lemma history_sample_returns:
  "\<exists>r. analyze_alerts sample_pylib (storm_sample n) (replicate m (history_record res sev c)) = Inr r"
  "\<exists>r. analyze_alerts sample_pylib (tuning_sample n k) (replicate m (history_record res sev c)) = Inr r"
  by (rule analyze_alerts_total;
      auto simp: storm_sample_def tuning_sample_def sample_records_countable)+

lemma correlation_patterns_sample:
  "map correlation_id (detect_correlation_patterns (storm_sample 2)) = [''op-1'']"
  by (simp add: detect_correlation_patterns_def correlation_groups_def correlation_step_def
        storm_sample_def activity_record_def dict_get_def eval_nat_numeral)

text \<open>
  C4, as the specification states it, fails: three alert-history records that share a
  correlation id, with no activity record, give no pattern at all.
\<close>

theorem history_correlation_counterexample:
  "map_sum id correlation_patterns
     (analyze_alerts sample_pylib [] (replicate 3 (history_record ''resourceH'' ''Sev1'' ''corr-1'')))
   = Inr []"
proof -
  obtain r where r: "analyze_alerts sample_pylib []
      (replicate 3 (history_record ''resourceH'' ''Sev1'' ''corr-1'')) = Inr r"
    using analyze_alerts_total [of "[]" sample_pylib "replicate 3 (history_record ''resourceH'' ''Sev1'' ''corr-1'')"]
      sample_records_countable(2) by auto
  from analyze_alerts_detections(1) [OF r] r show ?thesis
    by (simp add: detect_correlation_patterns_def correlation_groups_def)
qed

text \<open>
  C4, amended. Correlation groups are built from the activity records only: when no
  activity record carries a correlation id, no pattern is emitted for it, whatever the
  alert-history records are.
\<close>

theorem history_records_form_no_correlation_group:
  assumes "analyze_alerts L activity_alerts alert_history = Inr r"
      and "Some cid \<notin> (\<lambda>a. str_field (dict_get a ''correlationId'')) ` set activity_alerts"
  shows "cid \<notin> correlation_id ` set (correlation_patterns r)"
proof -
  have "correlated_records cid activity_alerts = []"
    using assms(2) by (force simp: correlated_records_def filter_empty_conv image_iff)
  with correlation_patterns_for [of cid activity_alerts]
  have "filter (\<lambda>p. correlation_id p = cid) (detect_correlation_patterns activity_alerts) = []"
    by simp
  then show ?thesis
    using analyze_alerts_detections(1) [OF assms(1)] by (auto simp: filter_empty_conv)
qed

theorem history_records_form_no_correlation_group_witness:
  "Some ''corr-1'' \<notin> (\<lambda>a. str_field (dict_get a ''correlationId'')) ` set (storm_sample 2) \<and>
   ''corr-1'' \<notin> set (map correlation_id (detect_correlation_patterns (storm_sample 2))) \<and>
   map_sum id (\<lambda>r. map correlation_id (correlation_patterns r))
     (analyze_alerts sample_pylib (storm_sample 2)
        (replicate 3 (history_record ''resourceH'' ''Sev1'' ''corr-1'')))
   = Inr [''op-1'']"
proof -
  obtain r where r: "analyze_alerts sample_pylib (storm_sample 2)
      (replicate 3 (history_record ''resourceH'' ''Sev1'' ''corr-1'')) = Inr r"
    using history_sample_returns(1) by blast
  have h: "Some ''corr-1'' \<notin> (\<lambda>a. str_field (dict_get a ''correlationId'')) ` set (storm_sample 2)"
    by (simp add: storm_sample_def activity_record_def dict_get_def eval_nat_numeral)
  from history_records_form_no_correlation_group [OF r h] analyze_alerts_detections(1) [OF r]
  have "''corr-1'' \<notin> set (map correlation_id (detect_correlation_patterns (storm_sample 2)))"
    by simp
  with h r analyze_alerts_detections(1) [OF r] correlation_patterns_sample show ?thesis
    by simp
qed

section \<open>The tuning threshold in floating point\<close>

lemma bit_length_eqI: "2 ^ k \<le> n \<Longrightarrow> n < 2 ^ Suc k \<Longrightarrow> bit_length n = Suc k"
proof (induction k arbitrary: n)
  case 0
  then have "n = Suc 0" by simp
  then show ?case by (simp add: bit_length.simps [of "Suc 0"] bit_length.simps [of 0])
next
  case (Suc k)
  have "2 ^ k \<le> n div 2" using Suc.prems by simp
  moreover have "n div 2 < 2 ^ Suc k" using Suc.prems by simp
  ultimately have "bit_length (n div 2) = Suc k" by (rule Suc.IH)
  moreover have "n \<noteq> 0" using Suc.prems by auto
  ultimately show ?case by (simp add: bit_length.simps [of n])
qed

lemma bit_length_le: "n < 2 ^ k \<Longrightarrow> bit_length n \<le> k"
proof (induction k arbitrary: n)
  case 0
  then show ?case by (simp add: bit_length.simps [of 0])
next
  case (Suc k)
  have "n div 2 < 2 ^ k" using Suc.prems by simp
  then have "bit_length (n div 2) \<le> k" by (rule Suc.IH)
  then show ?case by (simp add: bit_length.simps [of n])
qed

lemma round_to_53_small: "n < 2 ^ 53 \<Longrightarrow> round_to_53 n = n"
  using bit_length_le [of n 53] by (simp add: round_to_53_def)

text \<open>\<^verbatim>\<open>90 * 0.7\<close> is \<^verbatim>\<open>62.99999999999999\<close>, and \<^verbatim>\<open>6 * 0.7\<close> is \<^verbatim>\<open>4.199999999999999\<close>.\<close>

lemma times_0_7_90: "round_to_53 (round_to_53 90 * 6305039478318694) = 567453553048682432"
proof -
  have "bit_length (567453553048682460) = Suc 58" by (rule bit_length_eqI) simp_all
  then have "round_to_53 567453553048682460 = 567453553048682432"
    by (simp add: round_to_53_def Let_def)
  then show ?thesis by (simp add: round_to_53_small)
qed

lemma times_0_7_6: "round_to_53 (round_to_53 6 * 6305039478318694) = 37830236869912160"
proof -
  have "bit_length (37830236869912164) = Suc 55" by (rule bit_length_eqI) simp_all
  then have "round_to_53 37830236869912164 = 37830236869912160"
    by (simp add: round_to_53_def Let_def)
  then show ?thesis by (simp add: round_to_53_small)
qed

lemma exceeds_0_7_samples:
  "exceeds_0_7 63 90" "exceeds_0_7 5 6" "\<not> exceeds_0_7 4 6"
  by (simp_all add: exceeds_0_7_def times_0_7_90 times_0_7_6)

lemma most_common_single: "most_common 20 [(k, n)] = [(k, n)]"
  by (simp add: most_common_def)

lemma low_sev_count_tuning_sample: "low_sev_count (tuning_sample low other) ''resourceA'' = low"
  by (simp add: low_sev_count_def tuning_sample_def activity_record_def dict_get_def)

lemma tuning_sample_top:
  assumes "analyze_alerts L (tuning_sample low other) [] = Inr r" and "low + other > 0"
  shows "top_alerting_resources r = [(''resourceA'', int (low + other))]"
proof -
  have "fold (\<lambda>x. count_opt (str_field (dict_get x ''resourceId''))) (tuning_sample low other) [] =
        [(''resourceA'', int (length (tuning_sample low other)))]"
    using assms(2)
    by (intro fold_count_opt_single) (auto simp: tuning_sample_def activity_record_def dict_get_def)
  with analyze_alerts_top_alerting_resources [OF assms(1)] show ?thesis
    by (simp add: tuning_sample_def)
qed

lemma tuning_sample_recommendations:
  assumes "analyze_alerts L (tuning_sample low other) [] = Inr r" and "low + other > 0"
  shows "tuning_recommendations r =
         (if exceeds_0_7 low (low + other) \<and> low + other > 5
          then [\<lparr>rec_resource = ''resourceA'', rec_alert_count = int (low + other),
                 recommendation = ''Consider adjusting thresholds or reducing alert sensitivity''\<rparr>]
          else [])"
  using analyze_alerts_detections(3) [OF assms(1)] tuning_sample_top [OF assms]
  by (simp add: tuning_recommendations_of_def most_common_single low_sev_count_tuning_sample
        nat_int_add)

text \<open>
  C5. The analyzer at a resource with 90 alerts of which 63, exactly 70 percent, are of
  low severity: the resource is recommended, although 63 is not greater than 0.7 times 90.
\<close>

theorem tuning_flags_exactly_70_percent:
  "map_sum id tuning_recommendations (analyze_alerts sample_pylib (tuning_sample 63 27) []) =
     Inr [\<lparr>rec_resource = ''resourceA'', rec_alert_count = 90,
           recommendation = ''Consider adjusting thresholds or reducing alert sensitivity''\<rparr>]
   \<and> \<not> ((63 :: rat) > 7 / 10 * 90)"
proof -
  obtain r where r: "analyze_alerts sample_pylib (tuning_sample 63 27) [] = Inr r"
    using history_sample_returns(2) [of 63 27 0] by auto
  from tuning_sample_recommendations [OF r] r exceeds_0_7_samples(1) show ?thesis by simp
qed

lemma tuning_boundary_samples:
  "map_sum id (\<lambda>r. map rec_alert_count (tuning_recommendations r))
     (analyze_alerts sample_pylib (tuning_sample 5 1) []) = Inr [6]"
  "map_sum id (\<lambda>r. map rec_alert_count (tuning_recommendations r))
     (analyze_alerts sample_pylib (tuning_sample 4 2) []) = Inr []"
  "map_sum id (\<lambda>r. map rec_alert_count (tuning_recommendations r))
     (analyze_alerts sample_pylib (tuning_sample 5 0) []) = Inr []"
proof -
  obtain r1 where r1: "analyze_alerts sample_pylib (tuning_sample 5 1) [] = Inr r1"
    using history_sample_returns(2) [of 5 1 0] by auto
  from tuning_sample_recommendations [OF r1] r1 exceeds_0_7_samples(2)
  show "map_sum id (\<lambda>r. map rec_alert_count (tuning_recommendations r))
     (analyze_alerts sample_pylib (tuning_sample 5 1) []) = Inr [6]" by simp
  obtain r2 where r2: "analyze_alerts sample_pylib (tuning_sample 4 2) [] = Inr r2"
    using history_sample_returns(2) [of 4 2 0] by auto
  from tuning_sample_recommendations [OF r2] r2 exceeds_0_7_samples(3)
  show "map_sum id (\<lambda>r. map rec_alert_count (tuning_recommendations r))
     (analyze_alerts sample_pylib (tuning_sample 4 2) []) = Inr []" by simp
  obtain r3 where r3: "analyze_alerts sample_pylib (tuning_sample 5 0) [] = Inr r3"
    using history_sample_returns(2) [of 5 0 0] by auto
  from tuning_sample_recommendations [OF r3] r3
  show "map_sum id (\<lambda>r. map rec_alert_count (tuning_recommendations r))
     (analyze_alerts sample_pylib (tuning_sample 5 0) []) = Inr []" by simp
qed

section \<open>Zero denominators in the report\<close>

lemma percentage_zero_total: "percentage cnt 0 = 0"
  by (simp add: percentage_def)

lemma percentages_of_zero_total: "(k, cnt, p) \<in> set (percentages_of c 0) \<Longrightarrow> p = 0"
  by (auto simp: percentages_of_def percentage_def)

lemma generate_report_guarded:
  assumes "days_back \<noteq> 0"
  shows "\<exists>f. generate_report a days_back = Inr f \<and>
           severity_percentages f = percentages_of (severity_breakdown a) (int (total_alerts a)) \<and>
           state_percentages f = percentages_of (alert_state_breakdown a) (int (total_alerts a)) \<and>
           acknowledgment_rate f = guarded_rate (acknowledged_alerts a) (new_alerts a) \<and>
           resolution_rate f = guarded_rate (closed_alerts a) (new_alerts a)"
  using assms by (simp add: generate_report_def bind_err_def true_div_def)

text \<open>
  C9. The report for \<^verbatim>\<open>days_back = 0\<close>: the average per day divides by it without a guard
  and raises \<^verbatim>\<open>ZeroDivisionError\<close>, whatever the analysis document is, although the
  percentages computed next to it guard their denominator.
\<close>

theorem generate_report_zero_days:
  "generate_report a 0 = Inl ZeroDivisionError"
  by (simp add: generate_report_def bind_err_def true_div_def)

section \<open>Top alerts by severity\<close>

lemma counter_get_Nil: "counter_get [] k = 0"
  by (simp add: counter_get_def)

lemma counter_get_single: "counter_get [(k, v)] k' = (if k = k' then v else 0)"
  by (simp add: counter_get_def)

lemma fold_unchanged: "fold (\<lambda>x s. s) xs s = s"
  by (induction xs) simp_all

lemma nested_get_add:
  "nested_get (nested_add s k v n) s' k' = nested_get n s' k' + (if s = s' \<and> k = k' then v else 0)"
  by (induction n) (auto simp: nested_get_def counter_get_add counter_get_single)

lemma nested_add_keys: "s \<in> set (map fst n) \<Longrightarrow> map fst (nested_add s k v n) = map fst n"
proof (induction n)
  case Nil
  then show ?case by simp
next
  case (Cons p n)
  show ?case
  proof (cases "fst p = s")
    case True
    then show ?thesis by (cases p) simp
  next
    case False
    with Cons.prems have "s \<in> set (map fst n)" by auto
    with Cons.IH False show ?thesis by (cases p) simp
  qed
qed

lemma count_top_alert_keys: "map fst (count_top_alert x tops) = map fst tops"
  by (auto simp: count_top_alert_def nested_add_keys split: option.splits json.splits)

lemma nested_get_count_top_alert:
  "nested_get (count_top_alert x tops) s k =
   nested_get tops s k + (if top_alert_key (map fst tops) x = Some (s, k) then 1 else 0)"
  by (auto simp: count_top_alert_def top_alert_key_def nested_get_add split: option.splits json.splits)

lemma fold_count_top_alert:
  "map fst (fold count_top_alert xs tops) = map fst tops \<and>
   nested_get (fold count_top_alert xs tops) s k =
   nested_get tops s k + occurrences (top_alert_key (map fst tops)) (s, k) xs"
proof (induction xs arbitrary: tops)
  case Nil
  show ?case by (simp add: occurrences_def)
next
  case (Cons x xs)
  from Cons.IH [of "count_top_alert x tops"] show ?case
    by (simp add: count_top_alert_keys nested_get_count_top_alert occurrences_def)
qed

lemma analyze_alerts_top_alerts:
  assumes "analyze_alerts L acts hist = Inr r"
  shows "top_alerts_by_severity r =
         fold count_top_alert hist
           [(''Sev0'', []), (''Sev1'', []), (''Sev2'', []), (''Sev3'', []), (''Sev4'', [])]"
proof -
  from assms obtain a1 a2 where
    p1: "for_each (activity_step L) acts (initial_analysis acts hist) = Inr a1" and
    p2: "for_each (history_step L) hist a1 = Inr a2" and
    r: "r = a2\<lparr>alert_storms := detect_alert_storms L acts,
            tuning_recommendations := tuning_recommendations_of acts (top_alerting_resources a2),
            correlation_patterns := detect_correlation_patterns acts\<rparr>"
    by (rule analyze_alerts_passes)
  have "top_alerts_by_severity a1 =
        fold (\<lambda>x tops. tops) acts (top_alerts_by_severity (initial_analysis acts hist))"
    by (rule for_each_field [OF _ p1]) (rule activity_step_fields)
  then have "top_alerts_by_severity a1 = top_alerts_by_severity (initial_analysis acts hist)"
    by (simp add: fold_unchanged)
  moreover have "top_alerts_by_severity a2 = fold count_top_alert hist (top_alerts_by_severity a1)"
    by (rule for_each_field [OF _ p2]) (rule history_step_fields)
  ultimately show ?thesis using r by (simp add: initial_analysis_def)
qed

lemma analyze_alerts_severity_breakdown:
  assumes "analyze_alerts L acts hist = Inr r"
  shows "severity_breakdown r =
         fold (\<lambda>x. count_opt (str_field (dict_get x ''severity''))) hist
           (fold (\<lambda>x. count_opt (str_field (dict_get x ''level''))) acts [])"
proof -
  from assms obtain a1 a2 where
    p1: "for_each (activity_step L) acts (initial_analysis acts hist) = Inr a1" and
    p2: "for_each (history_step L) hist a1 = Inr a2" and
    r: "r = a2\<lparr>alert_storms := detect_alert_storms L acts,
            tuning_recommendations := tuning_recommendations_of acts (top_alerting_resources a2),
            correlation_patterns := detect_correlation_patterns acts\<rparr>"
    by (rule analyze_alerts_passes)
  have "severity_breakdown a1 =
        fold (\<lambda>x. count_opt (str_field (dict_get x ''level''))) acts
          (severity_breakdown (initial_analysis acts hist))"
    by (rule for_each_field [OF _ p1]) (rule activity_step_fields)
  moreover have "severity_breakdown a2 =
        fold (\<lambda>x. count_opt (str_field (dict_get x ''severity''))) hist (severity_breakdown a1)"
    by (rule for_each_field [OF _ p2]) (rule history_step_fields)
  ultimately show ?thesis using r by (simp add: initial_analysis_def)
qed

text \<open>
  C8, as the specification states it, fails: an alert-history record that has a
  recognized severity and no name is counted, under the name \<^verbatim>\<open>Unknown Alert\<close>.
\<close>

theorem nameless_history_record_counterexample:
  "map_sum id top_alerts_by_severity
     (analyze_alerts sample_pylib [] [[(''severity'', JStr ''Sev1'')]]) =
   Inr [(''Sev0'', []), (''Sev1'', [(''Unknown Alert'', 1)]), (''Sev2'', []), (''Sev3'', []),
        (''Sev4'', [])]"
proof -
  obtain r where r: "analyze_alerts sample_pylib [] [[(''severity'', JStr ''Sev1'')]] = Inr r"
    using analyze_alerts_total [of "[]" sample_pylib "[[(''severity'', JStr ''Sev1'')]]"]
    by (auto simp: countable_resource_type_def dict_get_def)
  from analyze_alerts_top_alerts [OF r] r show ?thesis
    by (simp add: count_top_alert_def dict_get_def dict_get_default_def)
qed

text \<open>
  C8, amended. Whenever the analysis returns: the entry of a severity and a name in the
  top-alerts structure is the number of alert-history records whose severity is that
  non-empty string, one of \<open>Sev0\<close> to \<open>Sev4\<close>, and whose name is that string, a missing
  name being read as \<^verbatim>\<open>Unknown Alert\<close>; activity records and records whose name is not
  a string add nothing, and the structure keeps its five severities. The severity
  breakdown counts every activity record by its level and every alert-history record by
  its severity, recognized or not.
\<close>

theorem top_alerts_by_severity_counts:
  assumes "analyze_alerts L activity_alerts alert_history = Inr r"
  shows "nested_get (top_alerts_by_severity r) severity alert_name =
           int (length (filter
             (\<lambda>h. str_field (dict_get h ''severity'') = Some severity \<and>
                  severity \<in> set [''Sev0'', ''Sev1'', ''Sev2'', ''Sev3'', ''Sev4''] \<and>
                  dict_get_default h ''name'' (JStr ''Unknown Alert'') = JStr alert_name)
             alert_history))
         \<and> map fst (top_alerts_by_severity r) = [''Sev0'', ''Sev1'', ''Sev2'', ''Sev3'', ''Sev4'']
         \<and> counter_get (severity_breakdown r) severity =
           int (length (filter (\<lambda>a. str_field (dict_get a ''level'') = Some severity) activity_alerts))
           + int (length (filter (\<lambda>h. str_field (dict_get h ''severity'') = Some severity) alert_history))"
proof -
  define keys where "keys = [''Sev0'', ''Sev1'', ''Sev2'', ''Sev3'', ''Sev4'']"
  define tops0 :: "(string \<times> string counter) list" where "tops0 = map (\<lambda>k. (k, [])) keys"
  have tops: "top_alerts_by_severity r = fold count_top_alert alert_history tops0"
    using analyze_alerts_top_alerts [OF assms] by (simp add: tops0_def keys_def)
  have k0: "map fst tops0 = keys" by (simp add: tops0_def comp_def)
  have z0: "nested_get tops0 severity alert_name = 0"
    by (simp add: tops0_def keys_def nested_get_def counter_get_def)
  have same: "(\<lambda>h. top_alert_key keys h = Some (severity, alert_name)) =
        (\<lambda>h. str_field (dict_get h ''severity'') = Some severity \<and> severity \<in> set keys \<and>
             dict_get_default h ''name'' (JStr ''Unknown Alert'') = JStr alert_name)"
    by (rule ext) (auto simp: top_alert_key_def split: option.splits json.splits)
  from fold_count_top_alert [of alert_history tops0 severity alert_name]
  have 1: "nested_get (top_alerts_by_severity r) severity alert_name =
        int (length (filter
             (\<lambda>h. str_field (dict_get h ''severity'') = Some severity \<and> severity \<in> set keys \<and>
                  dict_get_default h ''name'' (JStr ''Unknown Alert'') = JStr alert_name)
             alert_history))"
    and 2: "map fst (top_alerts_by_severity r) = keys"
    by (simp_all add: tops k0 z0 occurrences_def same)
  have 3: "counter_get (severity_breakdown r) severity =
           int (length (filter (\<lambda>a. str_field (dict_get a ''level'') = Some severity) activity_alerts))
           + int (length (filter (\<lambda>h. str_field (dict_get h ''severity'') = Some severity) alert_history))"
    by (simp add: analyze_alerts_severity_breakdown [OF assms] counter_get_fold_count_opt
          counter_get_Nil occurrences_def)
  from 1 2 3 show ?thesis unfolding keys_def by simp
qed

theorem top_alerts_by_severity_counts_witness:
  "map_sum id
     (\<lambda>r. (nested_get (top_alerts_by_severity r) ''Sev9'' ''Unknown Alert'',
           counter_get (severity_breakdown r) ''Sev9'',
           nested_get (top_alerts_by_severity r) ''Sev1'' ''Unknown Alert''))
     (analyze_alerts sample_pylib []
        (history_record ''resourceH'' ''Sev1'' ''op-3''
         # replicate 3 (history_record ''resourceH'' ''Sev9'' ''op-3'')))
   = Inr (0, 3, 1)"
proof -
  define hist where "hist = history_record ''resourceH'' ''Sev1'' ''op-3''
         # replicate 3 (history_record ''resourceH'' ''Sev9'' ''op-3'')"
  have "\<exists>r. analyze_alerts sample_pylib [] hist = Inr r"
    by (rule analyze_alerts_total) (auto simp: hist_def sample_records_countable)
  then obtain r where r: "analyze_alerts sample_pylib [] hist = Inr r" ..
  from top_alerts_by_severity_counts [OF r, of "''Sev9''" "''Unknown Alert''"]
    top_alerts_by_severity_counts [OF r, of "''Sev1''" "''Unknown Alert''"]
  have "nested_get (top_alerts_by_severity r) ''Sev9'' ''Unknown Alert'' = 0"
    "counter_get (severity_breakdown r) ''Sev9'' = 3"
    "nested_get (top_alerts_by_severity r) ''Sev1'' ''Unknown Alert'' = 1"
    by (simp_all add: hist_def history_record_def dict_get_def dict_get_default_def)
  with r show ?thesis by (simp add: hist_def)
qed

section \<open>The time distributions\<close>

lemma analyze_alerts_field:
  assumes r: "analyze_alerts L acts hist = Inr r"
    and act: "\<And>x a a'. activity_step L x a = Inr a' \<Longrightarrow> g a' = count_opt (f x) (g a)"
    and his: "\<And>x a a'. history_step L x a = Inr a' \<Longrightarrow> g a' = count_opt (f' x) (g a)"
    and ini: "g (initial_analysis acts hist) = []"
    and upd: "\<And>a s t c. g (a\<lparr>alert_storms := s, tuning_recommendations := t, correlation_patterns := c\<rparr>) = g a"
  shows "counter_get (g r) k = occurrences f k acts + occurrences f' k hist"
proof -
  from r obtain a1 a2 where
    p1: "for_each (activity_step L) acts (initial_analysis acts hist) = Inr a1" and
    p2: "for_each (history_step L) hist a1 = Inr a2" and
    r': "r = a2\<lparr>alert_storms := detect_alert_storms L acts,
            tuning_recommendations := tuning_recommendations_of acts (top_alerting_resources a2),
            correlation_patterns := detect_correlation_patterns acts\<rparr>"
    by (rule analyze_alerts_passes)
  have "g a1 = fold (\<lambda>x. count_opt (f x)) acts (g (initial_analysis acts hist))"
    by (rule for_each_field [OF _ p1]) (rule act)
  moreover have "g a2 = fold (\<lambda>x. count_opt (f' x)) hist (g a1)"
    by (rule for_each_field [OF _ p2]) (rule his)
  ultimately show ?thesis
    by (simp add: r' upd ini counter_get_fold_count_opt counter_get_Nil)
qed

lemma analyze_alerts_hourly:
  assumes "analyze_alerts L acts hist = Inr r"
  shows "counter_get (hourly_distribution r) h =
         occurrences (\<lambda>a. map_option dt_hour (parse_timestamp L (dict_get a ''timestamp''))) h acts
         + occurrences (\<lambda>x. map_option dt_hour (parse_timestamp L (dict_get x ''startDateTime''))) h hist"
  by (rule analyze_alerts_field [OF assms])
     (simp_all add: activity_step_fields history_step_fields initial_analysis_def)

lemma analyze_alerts_daily:
  assumes "analyze_alerts L acts hist = Inr r"
  shows "counter_get (daily_distribution r) d =
         occurrences (\<lambda>a. map_option (strftime_ymd L) (parse_timestamp L (dict_get a ''timestamp''))) d acts
         + occurrences (\<lambda>x. map_option (strftime_ymd L) (parse_timestamp L (dict_get x ''startDateTime''))) d hist"
  by (rule analyze_alerts_field [OF assms])
     (simp_all add: activity_step_fields history_step_fields initial_analysis_def)

lemma bind_err_Inr: "bind_err m f = Inr y \<longleftrightarrow> (\<exists>x. m = Inr x \<and> f x = Inr y)"
  by (cases m) (simp_all add: bind_err_def)

lemma subscript_Inr: "subscript d k = Inr v \<Longrightarrow> dict_get d k = v"
  by (auto simp: subscript_def dict_get_def split: option.splits)

lemma count_time_132921_fields:
  assumes "count_time_132921 L v b = Inr b'"
  shows "hourly_distribution_132921 b' =
           count_opt (map_option dt_hour (parse_timestamp L v)) (hourly_distribution_132921 b)
         \<and> daily_distribution_132921 b' =
           count_opt (map_option (strftime_ymd L) (parse_timestamp L v)) (daily_distribution_132921 b)"
  using assms
  by (cases v) (auto simp: count_time_132921_def parse_timestamp_def count_opt_def
        split: if_splits option.splits)

lemma activity_step_132921_fields:
  assumes "activity_step_132921 L x b = Inr b'"
  shows "hourly_distribution_132921 b' =
           count_opt (map_option dt_hour (parse_timestamp L (dict_get x ''timestamp'')))
             (hourly_distribution_132921 b)"
    and "daily_distribution_132921 b' =
           count_opt (map_option (strftime_ymd L) (parse_timestamp L (dict_get x ''timestamp'')))
             (daily_distribution_132921 b)"
  using assms
  by (auto simp: activity_step_132921_def bind_err_Inr
        dest!: count_time_132921_fields subscript_Inr)

lemma history_step_132921_fields:
  assumes "history_step_132921 x b = Inr b'"
  shows "hourly_distribution_132921 b' = hourly_distribution_132921 b"
    and "daily_distribution_132921 b' = daily_distribution_132921 b"
  using assms by (auto simp: history_step_132921_def bind_err_Inr)

lemma count_breakdowns_132921_hourly:
  assumes "count_breakdowns_132921 L acts hist = Inr b"
  shows "counter_get (hourly_distribution_132921 b) h =
         occurrences (\<lambda>a. map_option dt_hour (parse_timestamp L (dict_get a ''timestamp''))) h acts"
    and "counter_get (daily_distribution_132921 b) d =
         occurrences (\<lambda>a. map_option (strftime_ymd L) (parse_timestamp L (dict_get a ''timestamp''))) d acts"
proof -
  from assms obtain b1 where
    p1: "for_each (activity_step_132921 L) acts initial_breakdowns_132921 = Inr b1" and
    p2: "for_each history_step_132921 hist b1 = Inr b"
    by (auto simp: count_breakdowns_132921_def bind_err_Inr)
  have h1: "hourly_distribution_132921 b1 =
        fold (\<lambda>x. count_opt (map_option dt_hour (parse_timestamp L (dict_get x ''timestamp'')))) acts
          (hourly_distribution_132921 initial_breakdowns_132921)"
    by (rule for_each_field [OF _ p1]) (rule activity_step_132921_fields)
  have d1: "daily_distribution_132921 b1 =
        fold (\<lambda>x. count_opt (map_option (strftime_ymd L) (parse_timestamp L (dict_get x ''timestamp'')))) acts
          (daily_distribution_132921 initial_breakdowns_132921)"
    by (rule for_each_field [OF _ p1]) (rule activity_step_132921_fields)
  have h2: "hourly_distribution_132921 b = fold (\<lambda>x s. s) hist (hourly_distribution_132921 b1)"
    by (rule for_each_field [OF _ p2]) (rule history_step_132921_fields)
  have d2: "daily_distribution_132921 b = fold (\<lambda>x s. s) hist (daily_distribution_132921 b1)"
    by (rule for_each_field [OF _ p2]) (rule history_step_132921_fields)
  show "counter_get (hourly_distribution_132921 b) h =
         occurrences (\<lambda>a. map_option dt_hour (parse_timestamp L (dict_get a ''timestamp''))) h acts"
    by (simp add: h2 h1 fold_unchanged counter_get_fold_count_opt counter_get_Nil
          initial_breakdowns_132921_def)
  show "counter_get (daily_distribution_132921 b) d =
         occurrences (\<lambda>a. map_option (strftime_ymd L) (parse_timestamp L (dict_get a ''timestamp''))) d acts"
    by (simp add: d2 d1 fold_unchanged counter_get_fold_count_opt counter_get_Nil
          initial_breakdowns_132921_def)
qed

lemma replace_Z_yesterday: "replace_Z ''yesterday'' = ''yesterday''"
  by simp

lemma parse_timestamp_samples:
  "parse_timestamp sample_pylib (JStr ''2025-08-22T10:00:00Z'') = Some (sample_datetime 10 0 0 0)"
  "parse_timestamp sample_pylib (JStr ''2025-08-22T10:04:59Z'') = Some (sample_datetime 10 4 59 0)"
  "parse_timestamp sample_pylib (JStr ''yesterday'') = None"
  "parse_timestamp sample_pylib JNull = None"
  by (simp_all add: parse_timestamp_def replace_Z_samples replace_Z_yesterday sample_pylib_def
        del: replace_Z.simps)

lemma timed_sample_returns:
  "\<exists>r. analyze_alerts sample_pylib [activity_record_132921 res t] [timed_history_record sev t'] = Inr r"
  "\<exists>r. analyze_alerts sample_pylib [] [timed_history_record sev t'] = Inr r"
  by (rule analyze_alerts_total;
      simp add: countable_resource_type_def resource_type_str_def dict_get_def
        activity_record_132921_def timed_history_record_def)+

lemma timed_sample_returns_132921:
  "\<exists>b. count_breakdowns_132921 sample_pylib
         [activity_record_132921 res ''2025-08-22T10:04:59Z'']
         [timed_history_record sev t'] = Inr b"
  by (simp add: count_breakdowns_132921_def activity_step_132921_def history_step_132921_def
        bind_err_def subscript_def count_key_def count_time_132921_def dict_get_def
        activity_record_132921_def timed_history_record_def initial_breakdowns_132921_def
        replace_Z_samples sample_pylib_def del: replace_Z.simps)

text \<open>
  C6, as the specification states it, fails on the later analyzer: an alert-history
  record with a start time changes the hourly distribution.
\<close>

theorem history_time_distribution_counterexample:
  "map_sum id (\<lambda>r. counter_get (hourly_distribution r) 10)
     (analyze_alerts sample_pylib [] [timed_history_record ''Sev2'' ''2025-08-22T10:00:00Z''])
   = Inr 1"
proof -
  obtain r where r: "analyze_alerts sample_pylib []
      [timed_history_record ''Sev2'' ''2025-08-22T10:00:00Z''] = Inr r"
    using timed_sample_returns(2) by blast
  from analyze_alerts_hourly [OF r, of 10] r show ?thesis
    by (simp add: occurrences_def timed_history_record_def dict_get_def parse_timestamp_samples
          sample_datetime_def)
qed

text \<open>
  C6, amended. In the later analyzer (run of 17:19:57) an hour or day bucket counts the
  activity records whose \<^verbatim>\<open>timestamp\<close> parses to it and the alert-history records whose
  \<^verbatim>\<open>startDateTime\<close> parses to it. In the earlier analyzer (run of 13:29:21) it counts
  the activity records only: alert-history records never change the two distributions.
\<close>

theorem time_distribution_sources:
  "(analyze_alerts L activity_alerts alert_history = Inr r \<longrightarrow>
      counter_get (hourly_distribution r) h =
        occurrences (\<lambda>a. map_option dt_hour (parse_timestamp L (dict_get a ''timestamp''))) h activity_alerts
        + occurrences (\<lambda>x. map_option dt_hour (parse_timestamp L (dict_get x ''startDateTime''))) h alert_history
      \<and> counter_get (daily_distribution r) d =
        occurrences (\<lambda>a. map_option (strftime_ymd L) (parse_timestamp L (dict_get a ''timestamp''))) d activity_alerts
        + occurrences (\<lambda>x. map_option (strftime_ymd L) (parse_timestamp L (dict_get x ''startDateTime''))) d alert_history)
   \<and> (count_breakdowns_132921 L activity_alerts alert_history = Inr b \<longrightarrow>
      counter_get (hourly_distribution_132921 b) h =
        occurrences (\<lambda>a. map_option dt_hour (parse_timestamp L (dict_get a ''timestamp''))) h activity_alerts
      \<and> counter_get (daily_distribution_132921 b) d =
        occurrences (\<lambda>a. map_option (strftime_ymd L) (parse_timestamp L (dict_get a ''timestamp''))) d activity_alerts)"
  using analyze_alerts_hourly analyze_alerts_daily count_breakdowns_132921_hourly by blast

theorem time_distribution_sources_witness:
  "map_sum id (\<lambda>r. counter_get (hourly_distribution r) 10)
     (analyze_alerts sample_pylib
        [activity_record_132921 ''resourceA'' ''2025-08-22T10:04:59Z'']
        [timed_history_record ''Sev2'' ''2025-08-22T10:00:00Z''])
   = Inr 2
   \<and> map_sum id (\<lambda>b. counter_get (hourly_distribution_132921 b) 10)
     (count_breakdowns_132921 sample_pylib
        [activity_record_132921 ''resourceA'' ''2025-08-22T10:04:59Z'']
        [timed_history_record ''Sev2'' ''2025-08-22T10:00:00Z''])
   = Inr 1"
proof -
  define acts where "acts = [activity_record_132921 ''resourceA'' ''2025-08-22T10:04:59Z'']"
  define hist where "hist = [timed_history_record ''Sev2'' ''2025-08-22T10:00:00Z'']"
  obtain r where r: "analyze_alerts sample_pylib acts hist = Inr r"
    using timed_sample_returns(1) unfolding acts_def hist_def by blast
  obtain b where b: "count_breakdowns_132921 sample_pylib acts hist = Inr b"
    using timed_sample_returns_132921 unfolding acts_def hist_def by blast
  from time_distribution_sources [of sample_pylib acts hist r 10 _ b] r b
  have "counter_get (hourly_distribution r) 10 = 2"
    and "counter_get (hourly_distribution_132921 b) 10 = 1"
    by (simp_all add: acts_def hist_def occurrences_def activity_record_132921_def
          timed_history_record_def dict_get_def parse_timestamp_samples sample_datetime_def)
  with r b show ?thesis unfolding acts_def hist_def by simp
qed

section \<open>Records with missing or malformed fields\<close>

lemma count_resource_type_key:
  "count_resource_type L v c = Inr c' \<Longrightarrow> c' = count_opt (resource_type_key L v) c"
  by (auto simp: count_resource_type_def resource_type_key_def count_opt_def
        split: if_splits option.splits)

lemma activity_step_resource_type:
  "activity_step L x a = Inr a' \<Longrightarrow>
   resource_type_breakdown a' =
     count_opt (resource_type_key L (dict_get x ''resourceType'')) (resource_type_breakdown a)"
  by (auto simp: activity_step_def split: sum.splits dest: count_resource_type_key)

lemma history_step_resource_type:
  "history_step L x a = Inr a' \<Longrightarrow>
   resource_type_breakdown a' =
     count_opt (resource_type_key L (dict_get x ''targetResourceType'')) (resource_type_breakdown a)"
  by (auto simp: history_step_def split: sum.splits dest: count_resource_type_key)

lemma analyze_alerts_breakdowns:
  assumes "analyze_alerts L acts hist = Inr r"
  shows "counter_get (severity_breakdown r) k =
           occurrences (\<lambda>a. str_field (dict_get a ''level'')) k acts
           + occurrences (\<lambda>x. str_field (dict_get x ''severity'')) k hist"
    and "counter_get (resource_group_breakdown r) k =
           occurrences (\<lambda>a. str_field (dict_get a ''resourceGroup'')) k acts
           + occurrences (\<lambda>x. str_field (dict_get x ''targetResourceGroup'')) k hist"
    and "counter_get (top_alerting_resources r) k =
           occurrences (\<lambda>a. str_field (dict_get a ''resourceId'')) k acts
           + occurrences (\<lambda>x. str_field (dict_get x ''targetResource'')) k hist"
    and "counter_get (resource_type_breakdown r) t =
           occurrences (\<lambda>a. resource_type_key L (dict_get a ''resourceType'')) t acts
           + occurrences (\<lambda>x. resource_type_key L (dict_get x ''targetResourceType'')) t hist"
  by (rule analyze_alerts_field [OF assms];
      simp add: activity_step_fields history_step_fields activity_step_resource_type
        history_step_resource_type initial_analysis_def)+

text \<open>
  C7. The specification holds that normalizing a record never fails. The analyzer does
  fail. In the later analyzer (run of 17:19:57) the level, the resource group, the
  resource identifier and the timestamp are each guarded by \<^verbatim>\<open>isinstance(x, str)\<close>, and
  the resource type is guarded against a string and an object; but the \<^verbatim>\<open>value\<close> or
  \<^verbatim>\<open>localizedValue\<close> taken from the object is not checked, so a list there reaches
  \<^verbatim>\<open>resource_type_breakdown[resource_type_str] += 1\<close> as an unhashable key: one activity
  record, or one alert-history record, of that shape ends the whole analysis with
  \<^verbatim>\<open>TypeError\<close>, and no record contributes to any breakdown. The earlier analyzer (run of
  13:29:21) subscripts the fields of an activity record and ends with \<^verbatim>\<open>KeyError\<close> on a
  record that lacks one.
\<close>

theorem malformed_field_raises:
  "analyze_alerts L [[(''resourceType'', JObj [(''value'', JArr [JStr ''vm''])])]] [] = Inl TypeError
   \<and> analyze_alerts L []
        [[(''targetResourceType'', JObj [(''localizedValue'', JArr [JStr ''vm''])])]] = Inl TypeError
   \<and> count_breakdowns_132921 L [[(''level'', JStr ''Error'')]] alert_history = Inl KeyError"
  by (simp add: analyze_alerts_def activity_step_def history_step_def count_resource_type_def
        resource_type_str_def dict_get_def count_breakdowns_132921_def activity_step_132921_def
        bind_err_def subscript_def count_key_def initial_breakdowns_132921_def)

text \<open>
  The inputs on which the later analyzer fails are exactly those with a resource type
  whose counted value is unhashable: one such record anywhere in either list ends the
  analysis with \<^verbatim>\<open>TypeError\<close>.
\<close>

lemma count_resource_type_error:
  "count_resource_type L v c = Inl e \<Longrightarrow> e = TypeError"
  by (auto simp: count_resource_type_def split: if_splits option.splits)

lemma count_resource_type_raises:
  "\<not> countable_resource_type L v \<Longrightarrow> count_resource_type L v c = Inl TypeError"
  by (auto simp: countable_resource_type_def count_resource_type_def split: if_splits)

lemma for_each_raises:
  assumes "x \<in> set xs"
      and "\<And>s. body x s = Inl e"
      and "\<And>y s e'. body y s = Inl e' \<Longrightarrow> e' = e"
  shows "for_each body xs s = Inl e"
  using assms(1)
proof (induction xs arbitrary: s)
  case Nil
  then show ?case by simp
next
  case (Cons y ys)
  show ?case
  proof (cases "body y s")
    case (Inl e')
    with assms(3) [of y s e'] show ?thesis by simp
  next
    case (Inr s')
    with assms(2) [of s] have "x \<noteq> y" by auto
    with Cons.prems have "x \<in> set ys" by simp
    then have "for_each body ys s' = Inl e" by (rule Cons.IH)
    with Inr show ?thesis by simp
  qed
qed

lemma for_each_error:
  assumes "\<And>y s e'. body y s = Inl e' \<Longrightarrow> e' = e"
  shows "for_each body xs s = Inl e' \<Longrightarrow> e' = e"
proof (induction xs arbitrary: s)
  case Nil
  then show ?case by simp
next
  case (Cons y ys)
  then show ?case
    by (cases "body y s") (auto dest: assms)
qed

lemma activity_step_error:
  "activity_step L x a = Inl e \<Longrightarrow> e = TypeError"
  by (auto simp: activity_step_def split: sum.splits dest: count_resource_type_error)

lemma history_step_error:
  "history_step L x a = Inl e \<Longrightarrow> e = TypeError"
  by (auto simp: history_step_def split: sum.splits dest: count_resource_type_error)

lemma analyze_alerts_raises:
  assumes "(\<exists>a \<in> set acts. \<not> countable_resource_type L (dict_get a ''resourceType'')) \<or>
           (\<exists>h \<in> set hist. \<not> countable_resource_type L (dict_get h ''targetResourceType''))"
  shows "analyze_alerts L acts hist = Inl TypeError"
proof (cases "for_each (activity_step L) acts (initial_analysis acts hist)")
  case (Inl e)
  then have "e = TypeError"
    by (rule for_each_error [rotated]) (rule activity_step_error)
  with Inl show ?thesis by (simp add: analyze_alerts_def)
next
  case (Inr a1)
  have "\<not> (\<exists>a \<in> set acts. \<not> countable_resource_type L (dict_get a ''resourceType''))"
  proof
    assume "\<exists>a \<in> set acts. \<not> countable_resource_type L (dict_get a ''resourceType'')"
    then obtain a where a: "a \<in> set acts"
        "\<not> countable_resource_type L (dict_get a ''resourceType'')" by blast
    have "for_each (activity_step L) acts (initial_analysis acts hist) = Inl TypeError"
      using a(1)
    proof (rule for_each_raises)
      show "activity_step L a s = Inl TypeError" for s
        by (simp add: activity_step_def count_resource_type_raises [OF a(2)])
    qed (rule activity_step_error)
    with Inr show False by simp
  qed
  with assms obtain h where h: "h \<in> set hist"
      "\<not> countable_resource_type L (dict_get h ''targetResourceType'')" by blast
  have "for_each (history_step L) hist a1 = Inl TypeError"
    using h(1)
  proof (rule for_each_raises)
    show "history_step L h s = Inl TypeError" for s
      by (simp add: history_step_def count_resource_type_raises [OF h(2)])
  qed (rule history_step_error)
  with Inr show ?thesis by (simp add: analyze_alerts_def)
qed

text \<open>
  A resource type that is a number, neither a string nor an object, is not dropped
  either: it is counted under its \<^verbatim>\<open>str\<close>.
\<close>

lemma numeric_resource_type_counted:
  "map_sum id (\<lambda>r. counter_get (resource_type_breakdown r) (KStr ''5''))
     (analyze_alerts sample_pylib [malformed_record] []) = Inr 1"
proof -
  have "\<exists>r. analyze_alerts sample_pylib [malformed_record] [] = Inr r"
    by (rule analyze_alerts_total)
       (simp_all add: malformed_record_def countable_resource_type_def resource_type_str_def
          dict_get_def)
  then obtain r where r: "analyze_alerts sample_pylib [malformed_record] [] = Inr r" ..
  from analyze_alerts_breakdowns(4) [OF r, of "KStr ''5''"] r show ?thesis
    by (simp add: occurrences_def malformed_record_def dict_get_def resource_type_key_def
          resource_type_str_def str_of_def sample_pylib_def)
qed

text \<open>
  On every other input the analysis returns, and each breakdown counts exactly the
  records whose own field qualifies, whatever their other fields are: a level or
  severity, a resource group and a resource identifier count when they are non-empty
  strings and are skipped otherwise; a resource type is skipped when it is absent or
  falsy and is otherwise counted under its \<^verbatim>\<open>str\<close> or, for an object, under its
  \<^verbatim>\<open>value\<close>, else its \<^verbatim>\<open>localizedValue\<close>, else its \<^verbatim>\<open>str\<close>; a timestamp counts in its hour
  and day when it is a non-empty string that parses.
\<close>

lemma countable_records_are_counted:
  assumes "\<forall>a \<in> set activity_alerts. countable_resource_type L (dict_get a ''resourceType'')"
      and "\<forall>h \<in> set alert_history. countable_resource_type L (dict_get h ''targetResourceType'')"
  shows "\<exists>r. analyze_alerts L activity_alerts alert_history = Inr r \<and>
     (\<forall>k. counter_get (severity_breakdown r) k =
           occurrences (\<lambda>a. str_field (dict_get a ''level'')) k activity_alerts
           + occurrences (\<lambda>h. str_field (dict_get h ''severity'')) k alert_history) \<and>
     (\<forall>k. counter_get (resource_group_breakdown r) k =
           occurrences (\<lambda>a. str_field (dict_get a ''resourceGroup'')) k activity_alerts
           + occurrences (\<lambda>h. str_field (dict_get h ''targetResourceGroup'')) k alert_history) \<and>
     (\<forall>k. counter_get (top_alerting_resources r) k =
           occurrences (\<lambda>a. str_field (dict_get a ''resourceId'')) k activity_alerts
           + occurrences (\<lambda>h. str_field (dict_get h ''targetResource'')) k alert_history) \<and>
     (\<forall>t. counter_get (resource_type_breakdown r) t =
           occurrences (\<lambda>a. resource_type_key L (dict_get a ''resourceType'')) t activity_alerts
           + occurrences (\<lambda>h. resource_type_key L (dict_get h ''targetResourceType'')) t alert_history) \<and>
     (\<forall>n. counter_get (hourly_distribution r) n =
           occurrences (\<lambda>a. map_option dt_hour (parse_timestamp L (dict_get a ''timestamp''))) n activity_alerts
           + occurrences (\<lambda>h. map_option dt_hour (parse_timestamp L (dict_get h ''startDateTime''))) n alert_history) \<and>
     (\<forall>d. counter_get (daily_distribution r) d =
           occurrences (\<lambda>a. map_option (strftime_ymd L) (parse_timestamp L (dict_get a ''timestamp''))) d activity_alerts
           + occurrences (\<lambda>h. map_option (strftime_ymd L) (parse_timestamp L (dict_get h ''startDateTime''))) d alert_history)"
proof -
  obtain r where r: "analyze_alerts L activity_alerts alert_history = Inr r"
    using analyze_alerts_total [of activity_alerts L alert_history] assms by blast
  show ?thesis
    using r analyze_alerts_breakdowns [OF r] analyze_alerts_hourly [OF r] analyze_alerts_daily [OF r]
    by simp
qed

lemma malformed_record_is_counted:
  "map_sum id
     (\<lambda>r. (severity_breakdown r = [],
           counter_get (resource_group_breakdown r) ''rg-prod'',
           counter_get (top_alerting_resources r) ''resourceA'',
           counter_get (resource_type_breakdown r) (KStr ''5''),
           counter_get (hourly_distribution r) 10))
     (analyze_alerts sample_pylib [malformed_record] []) = Inr (True, 0, 1, 1, 0)"
proof -
  have c: "\<forall>a \<in> set [malformed_record]. countable_resource_type sample_pylib (dict_get a ''resourceType'')"
    by (simp add: malformed_record_def countable_resource_type_def resource_type_str_def dict_get_def)
  have e: "\<forall>h \<in> set ([] :: alert list). countable_resource_type sample_pylib (dict_get h ''targetResourceType'')"
    by simp
  from countable_records_are_counted [OF c e] obtain r where
    r: "analyze_alerts sample_pylib [malformed_record] [] = Inr r" and
    sev: "\<And>k. counter_get (severity_breakdown r) k =
           occurrences (\<lambda>a. str_field (dict_get a ''level'')) k [malformed_record]
           + occurrences (\<lambda>h. str_field (dict_get h ''severity'')) k []" and
    rg: "counter_get (resource_group_breakdown r) ''rg-prod'' =
           occurrences (\<lambda>a. str_field (dict_get a ''resourceGroup'')) ''rg-prod'' [malformed_record]
           + occurrences (\<lambda>h. str_field (dict_get h ''targetResourceGroup'')) ''rg-prod'' []" and
    res: "counter_get (top_alerting_resources r) ''resourceA'' =
           occurrences (\<lambda>a. str_field (dict_get a ''resourceId'')) ''resourceA'' [malformed_record]
           + occurrences (\<lambda>h. str_field (dict_get h ''targetResource'')) ''resourceA'' []" and
    rt: "counter_get (resource_type_breakdown r) (KStr ''5'') =
           occurrences (\<lambda>a. resource_type_key sample_pylib (dict_get a ''resourceType'')) (KStr ''5'') [malformed_record]
           + occurrences (\<lambda>h. resource_type_key sample_pylib (dict_get h ''targetResourceType'')) (KStr ''5'') []" and
    hr: "counter_get (hourly_distribution r) 10 =
           occurrences (\<lambda>a. map_option dt_hour (parse_timestamp sample_pylib (dict_get a ''timestamp''))) 10 [malformed_record]
           + occurrences (\<lambda>h. map_option dt_hour (parse_timestamp sample_pylib (dict_get h ''startDateTime''))) 10 []"
    by blast
  have "severity_breakdown r = []"
    using analyze_alerts_severity_breakdown [OF r]
    by (simp add: malformed_record_def dict_get_def count_opt_def)
  moreover have "counter_get (resource_group_breakdown r) ''rg-prod'' = 0"
    using rg by (simp add: occurrences_def malformed_record_def dict_get_def)
  moreover have "counter_get (top_alerting_resources r) ''resourceA'' = 1"
    using res by (simp add: occurrences_def malformed_record_def dict_get_def)
  moreover have "counter_get (resource_type_breakdown r) (KStr ''5'') = 1"
    using rt by (simp add: occurrences_def malformed_record_def dict_get_def resource_type_key_def
          resource_type_str_def str_of_def sample_pylib_def)
  moreover have "counter_get (hourly_distribution r) 10 = 0"
    using hr by (simp add: occurrences_def malformed_record_def dict_get_def parse_timestamp_samples)
  ultimately show ?thesis using r by simp
qed

section \<open>Counters as mappings\<close>

lemma acc_commute: "acc a (acc b m) = acc b (acc a m)"
  by (rule ext) (auto simp: acc_def)

lemma fold_acc_mset:
  assumes "mset xs = mset ys"
  shows "fold acc xs = fold acc ys"
  by (rule fold_multiset_equiv [OF _ assms]) (simp add: fun_eq_iff acc_commute)

lemma lookup0_acc: "lookup0 (acc kv m) x = lookup0 m x + (if fst kv = x then snd kv else 0)"
  by (simp add: lookup0_def acc_def)

lemma lookup0_fold_acc: "lookup0 (fold acc its m) x = lookup0 m x + items_sum its x"
  by (induction its arbitrary: m) (simp_all add: items_sum_def lookup0_acc)

lemma items_sum_concat:
  "items_sum (concat (map f xs)) x = sum_list (map (\<lambda>s. items_sum (f s) x) xs)"
  by (induction xs) (simp_all add: items_sum_def)

lemma counter_get_lookup0: "counter_get c k = lookup0 (map_of c) k"
  by (simp add: counter_get_def lookup0_def)

lemma nested_get_lookup0: "nested_get n s k = lookup0 (flat_view n) (s, k)"
  by (simp add: nested_get_def flat_view_def lookup0_def counter_get_def split: option.splits)

lemma map_of_counter_add: "map_of (counter_add k v c) = acc (k, v) (map_of c)"
  by (induction c) (auto simp: acc_def fun_eq_iff)

lemma map_of_add_items: "map_of (add_items its c) = fold acc its (map_of c)"
  unfolding add_items_def
  by (induction its arbitrary: c) (simp_all add: map_of_counter_add split_beta)

lemma flat_view_nested_add: "flat_view (nested_add s k v n) = acc ((s, k), v) (flat_view n)"
proof (induction n)
  case Nil
  show ?case by (auto simp: flat_view_def acc_def fun_eq_iff)
next
  case (Cons p n)
  obtain s' c where p: "p = (s', c)" by (cases p)
  show ?case
  proof (cases "s' = s")
    case True
    then show ?thesis
      by (auto simp: p flat_view_def map_of_counter_add acc_def fun_eq_iff)
  next
    case False
    have "\<And>x. flat_view ((s', c) # nested_add s k v n) x =
         (if fst x = s' then map_of c (snd x) else flat_view (nested_add s k v n) x)"
      by (simp add: flat_view_def split_beta)
    moreover have "\<And>x. flat_view ((s', c) # n) x =
         (if fst x = s' then map_of c (snd x) else flat_view n x)"
      by (simp add: flat_view_def split_beta)
    ultimately show ?thesis using False Cons.IH
      by (auto simp: p acc_def fun_eq_iff)
  qed
qed

lemma keys_nested_add: "fst ` set (nested_add s k v n) = insert s (fst ` set n)"
proof (induction n)
  case Nil
  show ?case by simp
next
  case (Cons p n)
  obtain s' c where p: "p = (s', c)" by (cases p)
  show ?case
  proof (cases "s' = s")
    case True
    then show ?thesis by (simp add: p insert_absorb)
  next
    case False
    with Cons.IH show ?thesis by (simp add: p insert_commute)
  qed
qed

lemma flat_view_fold_nested_add:
  "flat_view (fold (\<lambda>((s, k), v). nested_add s k v) fits n) = fold acc fits (flat_view n)"
  by (induction fits arbitrary: n) (simp_all add: flat_view_nested_add split_beta)

lemma keys_fold_nested_add:
  "fst ` set (fold (\<lambda>((s, k), v). nested_add s k v) fits n) =
   fst ` set n \<union> (\<lambda>kv. fst (fst kv)) ` set fits"
  by (induction fits arbitrary: n) (auto simp: keys_nested_add split_beta)

lemma fold_nested_add_inner:
  "fold (\<lambda>(k, v). nested_add s k v) states n =
   fold (\<lambda>((s, k), v). nested_add s k v) (map (\<lambda>(k, v). ((s, k), v)) states) n"
  by (induction states arbitrary: n) (simp_all add: split_beta)

lemma add_nested_items_flat:
  "add_nested_items its n = fold (\<lambda>((s, k), v). nested_add s k v) (nested_items its) n"
  unfolding add_nested_items_def nested_items_def
  by (induction its arbitrary: n) (simp_all add: split_beta fold_nested_add_inner)

lemma add_top_alerts_flat:
  "add_top_alerts its n = fold (\<lambda>((s, k), v). nested_add s k v) (top_alert_items its) n"
proof -
  have "fold (\<lambda>severity n'. case map_of its severity of None \<Rightarrow> n'
              | Some names \<Rightarrow> fold (\<lambda>(k, v). nested_add severity k v) names n') sevs n =
        fold (\<lambda>((s, k), v). nested_add s k v)
          (concat (map (\<lambda>s. case map_of its s of None \<Rightarrow> []
                            | Some names \<Rightarrow> map (\<lambda>(k, v). ((s, k), v)) names) sevs)) n"
    for sevs
    by (induction sevs arbitrary: n) (simp_all add: fold_nested_add_inner split: option.splits)
  then show ?thesis unfolding add_top_alerts_def top_alert_items_def .
qed

lemma nested_view_eqI:
  assumes "fst ` set n = fst ` set n'" and "flat_view n = flat_view n'"
  shows "nested_view n = nested_view n'"
proof (rule ext)
  fix s
  have dom: "map_of n s = None \<longleftrightarrow> map_of n' s = None"
    using assms(1) by (simp add: map_of_eq_None_iff)
  show "nested_view n s = nested_view n' s"
  proof (cases "map_of n s")
    case None
    with dom show ?thesis by (simp add: nested_view_def)
  next
    case (Some c)
    with dom obtain c' where c': "map_of n' s = Some c'" by auto
    have "map_of c k = map_of c' k" for k
      using fun_cong [OF assms(2), of "(s, k)"] Some c' by (simp add: flat_view_def)
    then have "map_of c = map_of c'" by (rule ext)
    with Some c' show ?thesis by (simp add: nested_view_def)
  qed
qed

section \<open>The rollup, component by component\<close>

lemma mset_concat_map:
  assumes "mset xs = mset ys"
  shows "mset (concat (map f xs)) = mset (concat (map f ys))"
proof -
  have "mset (concat (map f zs)) = sum_mset (image_mset (\<lambda>z. mset (f z)) (mset zs))" for zs
    by (induction zs) simp_all
  with assms show ?thesis by simp
qed

lemma rollup_view:
  assumes "\<And>s c. V (merge_subscription s c) = fold acc (items s) (V c)"
  shows "V (fold merge_subscription subs c) = fold acc (concat (map items subs)) (V c)"
  by (induction subs arbitrary: c) (simp_all add: assms)

lemma rollup_view_perm:
  assumes "\<And>s c. V (merge_subscription s c) = fold acc (items s) (V c)"
      and "mset xs = mset ys"
  shows "V (fold merge_subscription xs c) = V (fold merge_subscription ys c)"
  using fold_acc_mset [OF mset_concat_map [OF assms(2), of items]]
  by (simp add: rollup_view [of V items, OF assms(1)])

lemma rollup_view_value:
  assumes "\<And>s c. V (merge_subscription s c) = fold acc (items s) (V c)"
  shows "lookup0 (V (fold merge_subscription subs c)) x =
         lookup0 (V c) x + sum_list (map (\<lambda>s. items_sum (items s) x) subs)"
  by (simp add: rollup_view [of V items, OF assms] lookup0_fold_acc items_sum_concat)

lemma rollup_keys:
  assumes "\<And>s c. K (merge_subscription s c) = K c \<union> ks s"
  shows "K (fold merge_subscription subs c) = K c \<union> (\<Union>s \<in> set subs. ks s)"
  by (induction subs arbitrary: c) (auto simp: assms)

lemma rollup_keys_perm:
  assumes "\<And>s c. K (merge_subscription s c) = K c \<union> ks s"
      and "mset xs = mset ys"
  shows "K (fold merge_subscription xs c) = K (fold merge_subscription ys c)"
  using mset_eq_setD [OF assms(2)] by (simp add: rollup_keys [of K ks, OF assms(1)])

lemma scalar_step:
  "(\<lambda>u :: unit. Some (n + doc_int f sub)) = fold acc (scalar_items f sub) (\<lambda>u. Some n)"
  by (auto simp: doc_int_def scalar_items_def acc_def fun_eq_iff split: option.splits)

lemma items_sum_scalar: "items_sum (scalar_items f sub) () = doc_int f sub"
  by (simp add: items_sum_def scalar_items_def doc_int_def split: option.splits)

lemma merge_total_alerts:
  "(\<lambda>u :: unit. Some (tenant_total_alerts (merge_subscription s c))) =
   fold acc (scalar_items (\<lambda>d. get_int (doc_total_alerts d)) s) (\<lambda>u. Some (tenant_total_alerts c))"
  unfolding scalar_step [symmetric]
  by (simp add: merge_subscription_def doc_int_def split: option.splits)

lemma merge_new_alerts:
  "(\<lambda>u :: unit. Some (tenant_new_alerts (merge_subscription s c))) =
   fold acc (scalar_items (\<lambda>d. counter_get (get_items (doc_alert_lifecycle_metrics d)) ''new_alerts'') s)
     (\<lambda>u. Some (tenant_new_alerts c))"
  unfolding scalar_step [symmetric]
  by (simp add: merge_subscription_def doc_int_def split: option.splits)

lemma merge_acknowledged_alerts:
  "(\<lambda>u :: unit. Some (tenant_acknowledged_alerts (merge_subscription s c))) =
   fold acc (scalar_items (\<lambda>d. counter_get (get_items (doc_alert_lifecycle_metrics d)) ''acknowledged_alerts'') s)
     (\<lambda>u. Some (tenant_acknowledged_alerts c))"
  unfolding scalar_step [symmetric]
  by (simp add: merge_subscription_def doc_int_def split: option.splits)

lemma merge_closed_alerts:
  "(\<lambda>u :: unit. Some (tenant_closed_alerts (merge_subscription s c))) =
   fold acc (scalar_items (\<lambda>d. counter_get (get_items (doc_alert_lifecycle_metrics d)) ''closed_alerts'') s)
     (\<lambda>u. Some (tenant_closed_alerts c))"
  unfolding scalar_step [symmetric]
  by (simp add: merge_subscription_def doc_int_def split: option.splits)

lemma merge_severity_breakdown:
  "map_of (tenant_severity_breakdown (merge_subscription s c)) =
   fold acc (doc_items doc_severity_breakdown s) (map_of (tenant_severity_breakdown c))"
  by (simp add: merge_subscription_def doc_items_def map_of_add_items split: option.splits)

lemma merge_alert_state_breakdown:
  "map_of (tenant_alert_state_breakdown (merge_subscription s c)) =
   fold acc (doc_items doc_alert_state_breakdown s) (map_of (tenant_alert_state_breakdown c))"
  by (simp add: merge_subscription_def doc_items_def map_of_add_items split: option.splits)

lemma merge_resource_type_breakdown:
  "map_of (tenant_resource_type_breakdown (merge_subscription s c)) =
   fold acc (doc_items doc_resource_type_breakdown s) (map_of (tenant_resource_type_breakdown c))"
  by (simp add: merge_subscription_def doc_items_def map_of_add_items split: option.splits)

lemma merge_resource_group_breakdown:
  "map_of (tenant_resource_group_breakdown (merge_subscription s c)) =
   fold acc (doc_items doc_resource_group_breakdown s) (map_of (tenant_resource_group_breakdown c))"
  by (simp add: merge_subscription_def doc_items_def map_of_add_items split: option.splits)

lemma merge_top_alerting_resources:
  "map_of (tenant_top_alerting_resources (merge_subscription s c)) =
   fold acc (doc_items doc_top_alerting_resources s) (map_of (tenant_top_alerting_resources c))"
  by (simp add: merge_subscription_def doc_items_def map_of_add_items split: option.splits)

lemma items_Nil: "nested_items [] = []" "top_alert_items [] = []"
  by (simp_all add: nested_items_def top_alert_items_def)

lemma merge_alert_state_by_severity:
  "flat_view (tenant_alert_state_by_severity (merge_subscription s c)) =
   fold acc (nested_items (doc_items doc_alert_state_by_severity s))
     (flat_view (tenant_alert_state_by_severity c))"
  by (simp add: merge_subscription_def doc_items_def add_nested_items_flat
        flat_view_fold_nested_add items_Nil split: option.splits)

lemma merge_alert_state_by_severity_keys:
  "fst ` set (tenant_alert_state_by_severity (merge_subscription s c)) =
   fst ` set (tenant_alert_state_by_severity c)
   \<union> (\<lambda>kv. fst (fst kv)) ` set (nested_items (doc_items doc_alert_state_by_severity s))"
  by (simp add: merge_subscription_def doc_items_def add_nested_items_flat
        keys_fold_nested_add items_Nil split: option.splits)

lemma merge_top_alerts_by_severity:
  "flat_view (tenant_top_alerts_by_severity (merge_subscription s c)) =
   fold acc (top_alert_items (doc_items doc_top_alerts_by_severity s))
     (flat_view (tenant_top_alerts_by_severity c))"
  by (simp add: merge_subscription_def doc_items_def add_top_alerts_flat
        flat_view_fold_nested_add items_Nil split: option.splits)

lemma merge_top_alerts_by_severity_keys:
  "fst ` set (tenant_top_alerts_by_severity (merge_subscription s c)) =
   fst ` set (tenant_top_alerts_by_severity c)
   \<union> (\<lambda>kv. fst (fst kv)) ` set (top_alert_items (doc_items doc_top_alerts_by_severity s))"
  by (simp add: merge_subscription_def doc_items_def add_top_alerts_flat
        keys_fold_nested_add items_Nil split: option.splits)

section \<open>The rollup as a sum\<close>

lemma initial_cells:
  "tenant_total_alerts initial_consolidated = 0"
  "tenant_new_alerts initial_consolidated = 0"
  "tenant_acknowledged_alerts initial_consolidated = 0"
  "tenant_closed_alerts initial_consolidated = 0"
  "lookup0 (map_of (tenant_severity_breakdown initial_consolidated)) k = 0"
  "lookup0 (map_of (tenant_alert_state_breakdown initial_consolidated)) k = 0"
  "lookup0 (flat_view (tenant_alert_state_by_severity initial_consolidated)) sk = 0"
  "lookup0 (flat_view (tenant_top_alerts_by_severity initial_consolidated)) sk = 0"
  "lookup0 (map_of (tenant_resource_type_breakdown initial_consolidated)) k = 0"
  "lookup0 (map_of (tenant_resource_group_breakdown initial_consolidated)) k = 0"
  "lookup0 (map_of (tenant_top_alerting_resources initial_consolidated)) k = 0"
  by (simp_all add: initial_consolidated_def lookup0_def flat_view_def split_beta)

lemma tenant_cell_sum:
  "tenant_cell (aggregate_subscription_data subs) cell = sum_list (map (\<lambda>sub. doc_cell sub cell) subs)"
proof (cases cell)
  case Total
  from rollup_view_value [of "\<lambda>c u. Some (tenant_total_alerts c)" _ subs initial_consolidated "()",
      OF merge_total_alerts]
  show ?thesis
    by (simp add: Total aggregate_subscription_data_def lookup0_def initial_cells items_sum_scalar)
next
  case NewAlerts
  from rollup_view_value [of "\<lambda>c u. Some (tenant_new_alerts c)" _ subs initial_consolidated "()",
      OF merge_new_alerts]
  show ?thesis
    by (simp add: NewAlerts aggregate_subscription_data_def lookup0_def initial_cells items_sum_scalar)
next
  case AcknowledgedAlerts
  from rollup_view_value [of "\<lambda>c u. Some (tenant_acknowledged_alerts c)" _ subs initial_consolidated "()",
      OF merge_acknowledged_alerts]
  show ?thesis
    by (simp add: AcknowledgedAlerts aggregate_subscription_data_def lookup0_def initial_cells
          items_sum_scalar)
next
  case ClosedAlerts
  from rollup_view_value [of "\<lambda>c u. Some (tenant_closed_alerts c)" _ subs initial_consolidated "()",
      OF merge_closed_alerts]
  show ?thesis
    by (simp add: ClosedAlerts aggregate_subscription_data_def lookup0_def initial_cells
          items_sum_scalar)
next
  case (Severity k)
  from rollup_view_value [of "\<lambda>c. map_of (tenant_severity_breakdown c)" _ subs initial_consolidated k,
      OF merge_severity_breakdown]
  show ?thesis
    by (simp add: Severity aggregate_subscription_data_def counter_get_lookup0 initial_cells)
next
  case (AlertState k)
  from rollup_view_value [of "\<lambda>c. map_of (tenant_alert_state_breakdown c)" _ subs initial_consolidated k,
      OF merge_alert_state_breakdown]
  show ?thesis
    by (simp add: AlertState aggregate_subscription_data_def counter_get_lookup0 initial_cells)
next
  case (StateBySeverity s k)
  from rollup_view_value [of "\<lambda>c. flat_view (tenant_alert_state_by_severity c)" _ subs
      initial_consolidated "(s, k)", OF merge_alert_state_by_severity]
  show ?thesis
    by (simp add: StateBySeverity aggregate_subscription_data_def nested_get_lookup0 initial_cells)
next
  case (TopAlert s k)
  from rollup_view_value [of "\<lambda>c. flat_view (tenant_top_alerts_by_severity c)" _ subs
      initial_consolidated "(s, k)", OF merge_top_alerts_by_severity]
  show ?thesis
    by (simp add: TopAlert aggregate_subscription_data_def nested_get_lookup0 initial_cells)
next
  case (ResourceType k)
  from rollup_view_value [of "\<lambda>c. map_of (tenant_resource_type_breakdown c)" _ subs initial_consolidated k,
      OF merge_resource_type_breakdown]
  show ?thesis
    by (simp add: ResourceType aggregate_subscription_data_def counter_get_lookup0 initial_cells)
next
  case (ResourceGroup k)
  from rollup_view_value [of "\<lambda>c. map_of (tenant_resource_group_breakdown c)" _ subs initial_consolidated k,
      OF merge_resource_group_breakdown]
  show ?thesis
    by (simp add: ResourceGroup aggregate_subscription_data_def counter_get_lookup0 initial_cells)
next
  case (Resource k)
  from rollup_view_value [of "\<lambda>c. map_of (tenant_top_alerting_resources c)" _ subs initial_consolidated k,
      OF merge_top_alerting_resources]
  show ?thesis
    by (simp add: Resource aggregate_subscription_data_def counter_get_lookup0 initial_cells)
qed

lemma scalar_view_eq: "(\<lambda>u :: unit. Some a) = (\<lambda>u. Some b) \<Longrightarrow> a = b"
  by (drule fun_cong [of _ _ "()"]) simp

lemma tenant_totals_perm:
  assumes "mset xs = mset ys"
  shows "tenant_totals (aggregate_subscription_data xs) = tenant_totals (aggregate_subscription_data ys)"
proof -
  let ?A = "fold merge_subscription xs initial_consolidated"
  let ?B = "fold merge_subscription ys initial_consolidated"
  have 1: "tenant_total_alerts ?A = tenant_total_alerts ?B"
    by (rule scalar_view_eq)
       (rule rollup_view_perm [of "\<lambda>c u. Some (tenant_total_alerts c)", OF merge_total_alerts assms])
  have 2: "tenant_new_alerts ?A = tenant_new_alerts ?B"
    by (rule scalar_view_eq)
       (rule rollup_view_perm [of "\<lambda>c u. Some (tenant_new_alerts c)", OF merge_new_alerts assms])
  have 3: "tenant_acknowledged_alerts ?A = tenant_acknowledged_alerts ?B"
    by (rule scalar_view_eq)
       (rule rollup_view_perm [of "\<lambda>c u. Some (tenant_acknowledged_alerts c)",
          OF merge_acknowledged_alerts assms])
  have 4: "tenant_closed_alerts ?A = tenant_closed_alerts ?B"
    by (rule scalar_view_eq)
       (rule rollup_view_perm [of "\<lambda>c u. Some (tenant_closed_alerts c)", OF merge_closed_alerts assms])
  have 5: "map_of (tenant_severity_breakdown ?A) = map_of (tenant_severity_breakdown ?B)"
    by (rule rollup_view_perm [of "\<lambda>c. map_of (tenant_severity_breakdown c)",
          OF merge_severity_breakdown assms])
  have 6: "map_of (tenant_alert_state_breakdown ?A) = map_of (tenant_alert_state_breakdown ?B)"
    by (rule rollup_view_perm [of "\<lambda>c. map_of (tenant_alert_state_breakdown c)",
          OF merge_alert_state_breakdown assms])
  have 7: "map_of (tenant_resource_type_breakdown ?A) = map_of (tenant_resource_type_breakdown ?B)"
    by (rule rollup_view_perm [of "\<lambda>c. map_of (tenant_resource_type_breakdown c)",
          OF merge_resource_type_breakdown assms])
  have 8: "map_of (tenant_resource_group_breakdown ?A) = map_of (tenant_resource_group_breakdown ?B)"
    by (rule rollup_view_perm [of "\<lambda>c. map_of (tenant_resource_group_breakdown c)",
          OF merge_resource_group_breakdown assms])
  have 9: "map_of (tenant_top_alerting_resources ?A) = map_of (tenant_top_alerting_resources ?B)"
    by (rule rollup_view_perm [of "\<lambda>c. map_of (tenant_top_alerting_resources c)",
          OF merge_top_alerting_resources assms])
  have 10: "nested_view (tenant_alert_state_by_severity ?A) = nested_view (tenant_alert_state_by_severity ?B)"
  proof (rule nested_view_eqI)
    show "fst ` set (tenant_alert_state_by_severity ?A) = fst ` set (tenant_alert_state_by_severity ?B)"
      by (rule rollup_keys_perm [of "\<lambda>c. fst ` set (tenant_alert_state_by_severity c)",
            OF merge_alert_state_by_severity_keys assms])
    show "flat_view (tenant_alert_state_by_severity ?A) = flat_view (tenant_alert_state_by_severity ?B)"
      by (rule rollup_view_perm [of "\<lambda>c. flat_view (tenant_alert_state_by_severity c)",
            OF merge_alert_state_by_severity assms])
  qed
  have 11: "nested_view (tenant_top_alerts_by_severity ?A) = nested_view (tenant_top_alerts_by_severity ?B)"
  proof (rule nested_view_eqI)
    show "fst ` set (tenant_top_alerts_by_severity ?A) = fst ` set (tenant_top_alerts_by_severity ?B)"
      by (rule rollup_keys_perm [of "\<lambda>c. fst ` set (tenant_top_alerts_by_severity c)",
            OF merge_top_alerts_by_severity_keys assms])
    show "flat_view (tenant_top_alerts_by_severity ?A) = flat_view (tenant_top_alerts_by_severity ?B)"
      by (rule rollup_view_perm [of "\<lambda>c. flat_view (tenant_top_alerts_by_severity c)",
            OF merge_top_alerts_by_severity assms])
  qed
  show ?thesis
    unfolding tenant_totals_def aggregate_subscription_data_def
    using 1 2 3 4 5 6 7 8 9 10 11 by simp
qed

text \<open>
  C1. The tenant totals of a rollup (the total, the lifecycle counters and every counting
  map, compared as dictionaries) are the same for every order of the subscription
  documents. Each cell of the rollup is the sum over the documents of the document's cell,
  a missing document, map or key counting 0; so the rollup of a concatenation is, cell by
  cell, the sum of the rollups of its parts, and the rollup of no document is 0 everywhere.
\<close>

theorem rollup_is_commutative_monoid:
  "(mset subs = mset subs' \<longrightarrow>
      tenant_totals (aggregate_subscription_data subs) =
      tenant_totals (aggregate_subscription_data subs'))
   \<and> tenant_cell (aggregate_subscription_data subs) cell =
       sum_list (map (\<lambda>sub. doc_cell sub cell) subs)
   \<and> tenant_cell (aggregate_subscription_data (subs @ subs')) cell =
       tenant_cell (aggregate_subscription_data subs) cell
       + tenant_cell (aggregate_subscription_data subs') cell
   \<and> tenant_cell (aggregate_subscription_data []) cell = 0"
  using tenant_totals_perm [of subs subs'] by (simp add: tenant_cell_sum)

lemma sample_doc_cells:
  "map (\<lambda>sub. doc_cell sub (Severity ''Sev1'')) sample_subscriptions = [3, 2, 0]"
  "map (\<lambda>sub. doc_cell sub Total) sample_subscriptions = [7, 5, 0]"
  "map (\<lambda>sub. doc_cell sub (TopAlert ''Sev1'' ''ResourceHealthUnhealthyAlert'')) sample_subscriptions
   = [3, 2, 0]"
  by (simp_all add: sample_subscriptions_def sample_doc_def doc_items_def doc_int_def
        get_items_def get_int_def items_sum_def top_alert_items_def)

theorem rollup_is_commutative_monoid_witness:
  "mset sample_subscriptions = mset (rev sample_subscriptions)
   \<and> tenant_totals (aggregate_subscription_data sample_subscriptions) =
      tenant_totals (aggregate_subscription_data (rev sample_subscriptions))
   \<and> tenant_cell (aggregate_subscription_data sample_subscriptions) Total = 12
   \<and> tenant_cell (aggregate_subscription_data sample_subscriptions) (Severity ''Sev1'') = 5
   \<and> tenant_cell (aggregate_subscription_data sample_subscriptions)
        (TopAlert ''Sev1'' ''ResourceHealthUnhealthyAlert'') = 5"
  using rollup_is_commutative_monoid [of sample_subscriptions "rev sample_subscriptions" Total]
    rollup_is_commutative_monoid [of sample_subscriptions "rev sample_subscriptions" "Severity ''Sev1''"]
    rollup_is_commutative_monoid [of sample_subscriptions "rev sample_subscriptions"
      "TopAlert ''Sev1'' ''ResourceHealthUnhealthyAlert''"]
  by (simp add: sample_doc_cells del: tenant_cell.simps doc_cell.simps)

section \<open>Alert storms: what the analyzer emits\<close>













end
